theory Spec2Isabelle
  imports Complex_Main "HOL-Library.Sublist" "HOL-Library.Multiset"
begin

section \<open>JavaScript numbers\<close>

text \<open>
  A JavaScript number is an IEEE 754 double: a finite value, one of the two infinities,
  or \<open>NaN\<close>. A finite double is carried as the real number it denotes. An arithmetic
  operation on finite values computes the exact result and rounds it to the nearest
  double, ties to even (\<open>round64\<close>): the quantum of a result in the binade
  \<open>[2^e, 2^(e+1))\<close> is \<open>2^(e-52)\<close>, below \<open>2^-1022\<close> it is \<open>2^-1074\<close> (subnormals, and at
  last 0), and a rounded magnitude of \<open>2^1024\<close> or more is an infinity. The special
  values follow IEEE 754: \<open>0/0\<close>, \<open>Infinity - Infinity\<close>, \<open>Infinity / Infinity\<close> and
  \<open>0 * Infinity\<close> are \<open>NaN\<close>, and every operation with a \<open>NaN\<close> operand is \<open>NaN\<close>.
  The sign of a zero is not carried: the only divisors the service forms are products
  of square roots, whose zero is \<open>+0\<close>.
\<close>

datatype jsnum = Fin real | PInf | NInf | NaN

definition js_inf :: "bool \<Rightarrow> jsnum" where
  "js_inf positive = (if positive then PInf else NInf)"

definition round_half_even :: "real \<Rightarrow> int" where
  "round_half_even y =
     (let f = \<lfloor>y\<rfloor>; r = y - of_int f
      in if r < 1 / 2 then f else if 1 / 2 < r then f + 1 else if even f then f else f + 1)"

definition round64 :: "real \<Rightarrow> jsnum" where
  "round64 x =
     (if x = 0 then Fin 0
      else let e = max \<lfloor>log 2 \<bar>x\<bar>\<rfloor> (- 1022);
               q = 2 powi (e - 52);
               y = of_int (round_half_even (\<bar>x\<bar> / q)) * q
           in if 2 powi 1024 \<le> y then js_inf (0 < x) else Fin (sgn x * y))"

fun js_add :: "jsnum \<Rightarrow> jsnum \<Rightarrow> jsnum" where
  "js_add (Fin x) (Fin y) = round64 (x + y)"
| "js_add NaN b = NaN"
| "js_add a NaN = NaN"
| "js_add PInf NInf = NaN"
| "js_add NInf PInf = NaN"
| "js_add PInf b = PInf"
| "js_add NInf b = NInf"
| "js_add (Fin x) b = b"

fun js_mul :: "jsnum \<Rightarrow> jsnum \<Rightarrow> jsnum" where
  "js_mul (Fin x) (Fin y) = round64 (x * y)"
| "js_mul NaN b = NaN"
| "js_mul a NaN = NaN"
| "js_mul (Fin x) PInf = (if x = 0 then NaN else js_inf (0 < x))"
| "js_mul (Fin x) NInf = (if x = 0 then NaN else js_inf (x < 0))"
| "js_mul PInf (Fin y) = (if y = 0 then NaN else js_inf (0 < y))"
| "js_mul NInf (Fin y) = (if y = 0 then NaN else js_inf (y < 0))"
| "js_mul PInf PInf = PInf"
| "js_mul NInf NInf = PInf"
| "js_mul PInf NInf = NInf"
| "js_mul NInf PInf = NInf"

fun js_div :: "jsnum \<Rightarrow> jsnum \<Rightarrow> jsnum" where
  "js_div (Fin x) (Fin y) =
     (if y = 0 then (if x = 0 then NaN else js_inf (0 < x)) else round64 (x / y))"
| "js_div NaN b = NaN"
| "js_div a NaN = NaN"
| "js_div (Fin x) b = Fin 0"
| "js_div PInf (Fin y) = js_inf (0 \<le> y)"
| "js_div NInf (Fin y) = js_inf (y < 0)"
| "js_div a b = NaN"

text \<open>
  \<open>Math.sqrt\<close>: the square root rounded to the nearest double (the IEEE 754 operation
  the engines compute it with).
\<close>

fun js_sqrt :: "jsnum \<Rightarrow> jsnum" where
  "js_sqrt (Fin x) = (if x < 0 then NaN else round64 (sqrt x))"
| "js_sqrt PInf = PInf"
| "js_sqrt NInf = NaN"
| "js_sqrt NaN = NaN"

text \<open>
  The comparators of the two sorts form a difference only to test its sign. The
  difference of two doubles is positive exactly when their exact difference is (a
  difference of doubles that is not zero never rounds to zero, and an overflow keeps the
  sign), so \<open>js_sub\<close> takes the difference of finite values exactly.
\<close>

fun js_sub :: "jsnum \<Rightarrow> jsnum \<Rightarrow> jsnum" where
  "js_sub (Fin x) (Fin y) = Fin (x - y)"
| "js_sub NaN b = NaN"
| "js_sub a NaN = NaN"
| "js_sub PInf PInf = NaN"
| "js_sub NInf NInf = NaN"
| "js_sub PInf b = PInf"
| "js_sub NInf b = NInf"
| "js_sub (Fin x) PInf = NInf"
| "js_sub (Fin x) NInf = PInf"

text \<open>The relational operator \<open>a <= b\<close>: false as soon as one side is \<open>NaN\<close>.\<close>

fun js_le :: "jsnum \<Rightarrow> jsnum \<Rightarrow> bool" where
  "js_le (Fin x) (Fin y) = (x \<le> y)"
| "js_le NaN b = False"
| "js_le a NaN = False"
| "js_le NInf b = True"
| "js_le a PInf = True"
| "js_le a b = False"

text \<open>The test \<open>v > 0\<close> a sort applies to the value its comparator returned.\<close>

fun js_positive :: "jsnum \<Rightarrow> bool" where
  "js_positive (Fin x) = (0 < x)"
| "js_positive PInf = True"
| "js_positive NInf = False"
| "js_positive NaN = False"

section \<open>Cosine similarity (utils/embedding.util.ts)\<close>

text \<open>
  \<open>vecB[i]\<close> is \<open>undefined\<close> past the end of the array, and \<open>undefined\<close> used as a
  number is \<open>NaN\<close>.
\<close>

definition js_index :: "real list \<Rightarrow> nat \<Rightarrow> jsnum" where
  "js_index v i = (if i < length v then Fin (v ! i) else NaN)"

text \<open>
  \<open>arr.reduce(f, init)\<close> is a left fold; the callback of the dot product also
  receives the index of the element.
\<close>

definition cosineSimilarity :: "real list \<Rightarrow> real list \<Rightarrow> jsnum" where
  "cosineSimilarity vecA vecB =
     (let dot = foldl (\<lambda>sum (a, i). js_add sum (js_mul (Fin a) (js_index vecB i)))
                  (Fin 0) (zip vecA [0..<length vecA]);
          magA = js_sqrt (foldl (\<lambda>sum a. js_add sum (js_mul (Fin a) (Fin a))) (Fin 0) vecA);
          magB = js_sqrt (foldl (\<lambda>sum b. js_add sum (js_mul (Fin b) (Fin b))) (Fin 0) vecB)
      in js_div dot (js_mul magA magB))"


section \<open>Array.prototype.sort with a comparator\<close>

text \<open>
  \<open>arr.sort(cmp)\<close> is a stable sort: \<open>a\<close> is placed after \<open>b\<close> only where
  \<open>cmp(a, b) > 0\<close>. For a consistent comparator every stable sort returns the same
  array, so the method is modelled as a stable insertion sort. A comparator value that
  is \<open>NaN\<close> counts as \<open>0\<close>; it makes the comparator inconsistent, the language then
  leaves the order to the engine, and the order computed here need not be the engine's:
  nothing below that speaks of an order is stated for a list with a \<open>NaN\<close> score.
\<close>

fun insert_sorted :: "('a \<Rightarrow> 'a \<Rightarrow> jsnum) \<Rightarrow> 'a \<Rightarrow> 'a list \<Rightarrow> 'a list" where
  "insert_sorted cmp x [] = [x]"
| "insert_sorted cmp x (y # ys) =
     (if js_positive (cmp x y) then y # insert_sorted cmp x ys else x # y # ys)"

definition js_sort :: "('a \<Rightarrow> 'a \<Rightarrow> jsnum) \<Rightarrow> 'a list \<Rightarrow> 'a list" where
  "js_sort cmp xs = foldr (insert_sorted cmp) xs []"

text \<open>\<open>arr.join(sep)\<close>.\<close>

fun join :: "string \<Rightarrow> string list \<Rightarrow> string" where
  "join sep [] = []"
| "join sep [x] = x"
| "join sep (x # y # ys) = x @ sep @ join sep (y # ys)"

section \<open>Rendering numbers in template strings\<close>

text \<open>
  \<open>`${n}`\<close> for an integer \<open>n\<close>: its decimal digits, after a minus sign when it is
  negative (the integers of a database column are below \<open>10^21\<close>, where JavaScript
  switches to exponent notation).
\<close>

definition digit_char :: "nat \<Rightarrow> char" where
  "digit_char d = ''0123456789'' ! d"

fun decimal :: "nat \<Rightarrow> string" where
  "decimal n = (if n < 10 then [digit_char n] else decimal (n div 10) @ [digit_char (n mod 10)])"

declare decimal.simps [simp del]

definition string_of_int :: "int \<Rightarrow> string" where
  "string_of_int i = (if i < 0 then CHR ''-'' # decimal (nat (- i)) else decimal (nat i))"

section \<open>Rows of the database (types/database.type.ts)\<close>

text \<open>
  A column of type \<open>T | null\<close> is a \<open>T option\<close>. Chapter orders and chapter limits are
  integers. The field \<open>id\<close> is written \<open>id_ch\<close> and \<open>id_q\<close>.
\<close>

record chapter_row =
  id_ch :: string
  name :: "string option"
  order :: "int option"
  content :: "string option"
  title_id :: string

record question =
  id_q :: string
  user_id :: string
  title_id :: string
  chapter_limit :: "int option"
  question_text :: "string option"
  answer_text :: "string option"
  status :: "string option"
  created_at :: string
  updated_at :: string

text \<open>
  A row of the select on \<open>chapter_embeddings\<close> joined with \<open>chapters\<close>: the embedding
  is stored as a numeric array or as its serialized text, and the joined chapter arrives
  as one object or as an array of objects.
\<close>

datatype embedding_column = Native "real list" | Serialized string

datatype chapters_column = Object chapter_row | Array "chapter_row list" | Null

record embedding_row =
  embedding :: embedding_column
  chapters :: chapters_column

text \<open>The object built for each chapter at lines 96-105 of ai.service.ts.\<close>

record scored_chapter = chapter_row +
  similarity :: jsnum

datatype status_value = Pending | Answered | Failed

fun status_text :: "status_value \<Rightarrow> string" where
  "status_text Pending = ''pending''"
| "status_text Answered = ''answered''"
| "status_text Failed = ''failed''"

section \<open>The question store adapter (services/questions.service.ts)\<close>

text \<open>
  What the body of a \<open>try\<close> block meets: an exception (raised by the awaited query of
  the store client, or while the query is built), or the pair \<open>{ data, error }\<close> the
  query returns, where \<open>error\<close> (here: its message) is null on success.
\<close>

datatype 'a pg_outcome = Throws | Returns "'a option" "string option"

record 'a ApiResponse =
  success :: bool
  data :: "'a option"
  error :: "string option"
  message :: "string option"

definition failure :: "string \<Rightarrow> 'a ApiResponse" where
  "failure msg = \<lparr>success = False, data = None, error = Some msg, message = None\<rparr>"

text \<open>
  Every operation has the same shape: \<open>try { const { data, error } = await query;
  if (error) return failure; return success } catch { return failure }\<close>. The
  argument is the outcome of the awaited query.
\<close>

definition createQuestion :: "'a pg_outcome \<Rightarrow> 'a ApiResponse" where
  "createQuestion outcome = (case outcome of
       Throws \<Rightarrow> failure ''Failed to create question''
     | Returns d (Some msg) \<Rightarrow> failure msg
     | Returns d None \<Rightarrow>
         \<lparr>success = True, data = d, error = None,
          message = Some ''Question created successfully''\<rparr>)"

definition getUserQuestions :: "'a list pg_outcome \<Rightarrow> 'a list ApiResponse" where
  "getUserQuestions outcome = (case outcome of
       Throws \<Rightarrow> failure ''Failed to fetch user questions''
     | Returns d (Some msg) \<Rightarrow> failure msg
     | Returns d None \<Rightarrow>
         \<lparr>success = True, data = Some (case d of None \<Rightarrow> [] | Some rows \<Rightarrow> rows),
          error = None, message = None\<rparr>)"

definition getQuestionById :: "'a pg_outcome \<Rightarrow> 'a ApiResponse" where
  "getQuestionById outcome = (case outcome of
       Throws \<Rightarrow> failure ''Failed to fetch question''
     | Returns d (Some msg) \<Rightarrow> failure msg
     | Returns d None \<Rightarrow> \<lparr>success = True, data = d, error = None, message = None\<rparr>)"

definition updateQuestionAnswer :: "'a pg_outcome \<Rightarrow> 'a ApiResponse" where
  "updateQuestionAnswer outcome = (case outcome of
       Throws \<Rightarrow> failure ''Failed to update question answer''
     | Returns d (Some msg) \<Rightarrow> failure msg
     | Returns d None \<Rightarrow>
         \<lparr>success = True, data = d, error = None,
          message = Some ''Question answered successfully''\<rparr>)"

definition updateQuestionStatus :: "'a pg_outcome \<Rightarrow> 'a ApiResponse" where
  "updateQuestionStatus outcome = (case outcome of
       Throws \<Rightarrow> failure ''Failed to update question status''
     | Returns d (Some msg) \<Rightarrow> failure msg
     | Returns d None \<Rightarrow>
         \<lparr>success = True, data = d, error = None,
          message = Some ''Question status updated successfully''\<rparr>)"

text \<open>\<open>deleteQuestion\<close> reads only \<open>error\<close> and returns no data.\<close>

definition deleteQuestion :: "'a pg_outcome \<Rightarrow> unit ApiResponse" where
  "deleteQuestion outcome = (case outcome of
       Throws \<Rightarrow> failure ''Failed to delete question''
     | Returns d (Some msg) \<Rightarrow> failure msg
     | Returns d None \<Rightarrow>
         \<lparr>success = True, data = None, error = None,
          message = Some ''Question deleted successfully''\<rparr>)"

definition getQuestionsByStatus :: "'a list pg_outcome \<Rightarrow> 'a list ApiResponse" where
  "getQuestionsByStatus outcome = (case outcome of
       Throws \<Rightarrow> failure ''Failed to fetch questions by status''
     | Returns d (Some msg) \<Rightarrow> failure msg
     | Returns d None \<Rightarrow>
         \<lparr>success = True, data = Some (case d of None \<Rightarrow> [] | Some rows \<Rightarrow> rows),
          error = None, message = None\<rparr>)"

definition getRecentQuestions :: "'a list pg_outcome \<Rightarrow> 'a list ApiResponse" where
  "getRecentQuestions outcome = (case outcome of
       Throws \<Rightarrow> failure ''Failed to fetch recent questions''
     | Returns d (Some msg) \<Rightarrow> failure msg
     | Returns d None \<Rightarrow>
         \<lparr>success = True, data = Some (case d of None \<Rightarrow> [] | Some rows \<Rightarrow> rows),
          error = None, message = None\<rparr>)"

definition getQuestionsByTitle :: "'a list pg_outcome \<Rightarrow> 'a list ApiResponse" where
  "getQuestionsByTitle outcome = (case outcome of
       Throws \<Rightarrow> failure ''Failed to fetch questions by title''
     | Returns d (Some msg) \<Rightarrow> failure msg
     | Returns d None \<Rightarrow>
         \<lparr>success = True, data = Some (case d of None \<Rightarrow> [] | Some rows \<Rightarrow> rows),
          error = None, message = None\<rparr>)"

definition store_failed :: "'a pg_outcome \<Rightarrow> bool" where
  "store_failed outcome = (case outcome of Throws \<Rightarrow> True | Returns d e \<Rightarrow> e \<noteq> None)"

section \<open>The answer pipeline (services/ai.service.ts)\<close>

subsection \<open>Errors\<close>

text \<open>
  One value for each \<open>throw new Error(...)\<close> of \<open>generateAnswer\<close> and for each
  exception a collaborator raises into it, carrying what the message interpolates.
\<close>

datatype pipeline_error =
    QuestionNotFound "string option"
  | StoreException
  | EmbeddingsFetchFailed "string option"
  | InvalidEmbeddingFormat
  | NoChaptersWithinLimit "int option"
  | QuestionTextEmpty
  | EmbeddingFailed
  | NoRelevantChapters
  | ProviderException string
  | NoAnswerGenerated

subsection \<open>Boundary filter (lines 60-81)\<close>

text \<open>
  \<open>JSON.parse\<close> is a parameter: it returns the array a text denotes, or \<open>None\<close>
  where it throws.
\<close>

definition parsedEmbedding ::
  "(string \<Rightarrow> real list option) \<Rightarrow> embedding_column \<Rightarrow> real list option" where
  "parsedEmbedding parse e = (case e of Native v \<Rightarrow> Some v | Serialized s \<Rightarrow> parse s)"

text \<open>\<open>Array.isArray(item.chapters) ? item.chapters[0] : item.chapters\<close>\<close>

definition joined_chapter :: "chapters_column \<Rightarrow> chapter_row option" where
  "joined_chapter c = (case c of
       Object ch \<Rightarrow> Some ch
     | Array chs \<Rightarrow> (case chs of [] \<Rightarrow> None | ch # rest \<Rightarrow> Some ch)
     | Null \<Rightarrow> None)"

text \<open>A nullable integer column used as a number: \<open>null\<close> is \<open>0\<close>.\<close>

definition to_number :: "int option \<Rightarrow> jsnum" where
  "to_number v = (case v of None \<Rightarrow> Fin 0 | Some n \<Rightarrow> Fin (of_int n))"

text \<open>\<open>chapter_limit || Infinity\<close>: \<open>null\<close> and \<open>0\<close> are falsy.\<close>

definition limit_or_infinity :: "int option \<Rightarrow> jsnum" where
  "limit_or_infinity limit =
     (case limit of None \<Rightarrow> PInf | Some n \<Rightarrow> if n = 0 then PInf else Fin (of_int n))"

text \<open>
  The \<open>forEach\<close> loop: the first embedding that does not parse aborts it. A row
  without a joined chapter has \<open>chapter?.order\<close> undefined, the comparison is false and
  nothing is pushed.
\<close>

fun chaptersWithEmbeddings ::
  "(string \<Rightarrow> real list option) \<Rightarrow> int option \<Rightarrow> embedding_row list
     \<Rightarrow> pipeline_error + (chapter_row \<times> real list) list" where
  "chaptersWithEmbeddings parse limit [] = Inr []"
| "chaptersWithEmbeddings parse limit (item # items) =
     (case parsedEmbedding parse (embedding item) of
        None \<Rightarrow> Inl InvalidEmbeddingFormat
      | Some e \<Rightarrow>
          (case chaptersWithEmbeddings parse limit items of
             Inl err \<Rightarrow> Inl err
           | Inr pushed \<Rightarrow>
               (case joined_chapter (chapters item) of
                  None \<Rightarrow> Inr pushed
                | Some ch \<Rightarrow>
                    if js_le (to_number (order ch)) (limit_or_infinity limit)
                    then Inr ((ch, e) # pushed) else Inr pushed)))"

subsection \<open>Scoring and selection (lines 96-113)\<close>

definition chaptersWithScores ::
  "real list \<Rightarrow> (chapter_row \<times> real list) list \<Rightarrow> scored_chapter list" where
  "chaptersWithScores questionEmbedding cwe =
     map (\<lambda>(ch, e).
            \<lparr>id_ch = id_ch ch, name = name ch, order = order ch, content = content ch,
             title_id = chapter_row.title_id ch,
             similarity = cosineSimilarity questionEmbedding e\<rparr>) cwe"

definition relevantChapters :: "scored_chapter list \<Rightarrow> scored_chapter list" where
  "relevantChapters scored =
     take 5 (js_sort (\<lambda>a b. js_sub (similarity b) (similarity a)) scored)"

subsection \<open>Context and prompt (lines 120-144)\<close>

definition order_text :: "int option \<Rightarrow> string" where
  "order_text v = (case v of None \<Rightarrow> ''null'' | Some n \<Rightarrow> string_of_int n)"

text \<open>The callback of \<open>map\<close>, with \<open>name || `Chapter ${order}`\<close> and \<open>content || ""\<close>.\<close>

definition chapter_block :: "scored_chapter \<Rightarrow> string" where
  "chapter_block ch =
     (let chapterName = (case name ch of
                           None \<Rightarrow> ''Chapter '' @ order_text (order ch)
                         | Some n \<Rightarrow> if n = [] then ''Chapter '' @ order_text (order ch) else n);
          chapterContent = (case content ch of None \<Rightarrow> [] | Some c \<Rightarrow> c)
      in ''Chapter '' @ order_text (order ch) @ '': '' @ chapterName @ ''\<newline>'' @ chapterContent)"

definition by_order :: "scored_chapter list \<Rightarrow> scored_chapter list" where
  "by_order relevant = js_sort (\<lambda>a b. js_sub (to_number (order a)) (to_number (order b))) relevant"

definition contextText :: "scored_chapter list \<Rightarrow> string" where
  "contextText relevant = join ''\<newline>\<newline>'' (map chapter_block (by_order relevant))"

definition prompt :: "string \<Rightarrow> string \<Rightarrow> int option \<Rightarrow> string" where
  "prompt context qtext limit =
     ''\<newline>You are a helpful assistant. Use ONLY the information provided in the chapters below to answer the question. DO NOT use prior knowledge or guess. If the answer isn''
     @ [CHR 0x27] @ ''t found in the content, reply: '' @ [CHR 0x22]
     @ ''I could not find the answer in the provided chapters.'' @ [CHR 0x22]
     @ ''\<newline>\<newline>### Available Chapters (selected based on relevance):\<newline>''
     @ context
     @ ''\<newline>\<newline>### Question:\<newline>''
     @ qtext
     @ ''\<newline>\<newline>### Notes:\<newline>- Avoid spoilers from content beyond Chapter ''
     @ (case limit of None \<Rightarrow> ''limit''
        | Some n \<Rightarrow> if n = 0 then ''limit'' else string_of_int n)
     @ ''\<newline>- Stay factual and concise.\<newline>- Do NOT fabricate or assume details not present in the text.\<newline>''"

subsection \<open>Collaborators and effects\<close>

text \<open>
  The environment of one invocation fixes what each external call answers: the faults
  of the question store per kind of call, the clock, the rows of the embeddings query
  per title, \<open>JSON.parse\<close>, the embedding provider (\<open>None\<close>: \<open>getEmbedding\<close> throws)
  and the generation provider (it throws, or returns \<open>choices[0]?.message?.content\<close>,
  \<open>None\<close> when that is missing).
\<close>

datatype store_call = GetById | SetAnswer | SetStatus status_value

datatype fault = Healthy | Rejects string | Crashes

datatype completion = ProviderThrows string | Content "string option"

record env =
  fault_of :: "store_call \<Rightarrow> fault"
  now :: string
  chapter_embeddings :: "string \<Rightarrow> embedding_row list pg_outcome"
  json_parse :: "string \<Rightarrow> real list option"
  getEmbedding :: "string \<Rightarrow> real list option"
  chat_completion :: "string \<Rightarrow> completion"

text \<open>
  The state is the \<open>questions\<close> table and the sequence of external calls made so far,
  each recorded when it is attempted.
\<close>

datatype call =
    GetQuestion string
  | ReadEmbeddings string
  | EmbedQuestion string
  | WriteStatus string status_value
  | WriteAnswer string string
  | Generate string

record world =
  questions :: "string \<rightharpoonup> question"
  calls :: "call list"

definition record_call :: "call \<Rightarrow> world \<Rightarrow> world" where
  "record_call c w = w\<lparr>calls := calls w @ [c]\<rparr>"

text \<open>
  The store behind the adapter: a query filtered by id and closed with \<open>single()\<close>
  answers with an error when no row has that id, and an update then changes nothing. A
  faulty call answers with an error or throws, and changes nothing.
\<close>

definition no_rows :: string where
  "no_rows = ''JSON object requested, multiple (or no) rows returned''"

definition select_single :: "env \<Rightarrow> string \<Rightarrow> world \<Rightarrow> question pg_outcome" where
  "select_single e questionId w = (case fault_of e GetById of
       Crashes \<Rightarrow> Throws
     | Rejects msg \<Rightarrow> Returns None (Some msg)
     | Healthy \<Rightarrow> (case questions w questionId of
                     None \<Rightarrow> Returns None (Some no_rows)
                   | Some q \<Rightarrow> Returns (Some q) None))"

definition update_single ::
  "env \<Rightarrow> store_call \<Rightarrow> string \<Rightarrow> (question \<Rightarrow> question) \<Rightarrow> world
     \<Rightarrow> question pg_outcome \<times> world" where
  "update_single e c questionId change w = (case fault_of e c of
       Crashes \<Rightarrow> (Throws, w)
     | Rejects msg \<Rightarrow> (Returns None (Some msg), w)
     | Healthy \<Rightarrow> (case questions w questionId of
                     None \<Rightarrow> (Returns None (Some no_rows), w)
                   | Some q \<Rightarrow> (Returns (Some (change q)) None,
                                w\<lparr>questions := (questions w)(questionId \<mapsto> change q)\<rparr>)))"

definition call_getQuestionById ::
  "env \<Rightarrow> string \<Rightarrow> world \<Rightarrow> question ApiResponse \<times> world" where
  "call_getQuestionById e questionId w =
     (getQuestionById (select_single e questionId w), record_call (GetQuestion questionId) w)"

definition call_updateQuestionAnswer ::
  "env \<Rightarrow> string \<Rightarrow> string \<Rightarrow> world \<Rightarrow> question ApiResponse \<times> world" where
  "call_updateQuestionAnswer e questionId answerText w =
     (let r = update_single e SetAnswer questionId
                (\<lambda>q. q\<lparr>answer_text := Some answerText, status := Some ''answered'',
                        updated_at := now e\<rparr>)
                (record_call (WriteAnswer questionId answerText) w)
      in (updateQuestionAnswer (fst r), snd r))"

definition call_updateQuestionStatus ::
  "env \<Rightarrow> string \<Rightarrow> status_value \<Rightarrow> world \<Rightarrow> question ApiResponse \<times> world" where
  "call_updateQuestionStatus e questionId st w =
     (let r = update_single e (SetStatus st) questionId
                (\<lambda>q. q\<lparr>status := Some (status_text st), updated_at := now e\<rparr>)
                (record_call (WriteStatus questionId st) w)
      in (updateQuestionStatus (fst r), snd r))"

subsection \<open>generateAnswer\<close>

text \<open>Lines 146-166: the pending write, the generation call and the two final writes.\<close>

definition generate_and_save ::
  "env \<Rightarrow> string \<Rightarrow> string \<Rightarrow> world \<Rightarrow> (pipeline_error + string) \<times> world" where
  "generate_and_save e questionId p w =
     (let w1 = snd (call_updateQuestionStatus e questionId Pending w);
          w2 = record_call (Generate p) w1
      in case chat_completion e p of
           ProviderThrows msg \<Rightarrow> (Inl (ProviderException msg), w2)
         | Content None \<Rightarrow> (Inl NoAnswerGenerated, w2)
         | Content (Some answer) \<Rightarrow>
             if answer = [] then (Inl NoAnswerGenerated, w2)
             else (let w3 = snd (call_updateQuestionAnswer e questionId answer w2);
                       w4 = snd (call_updateQuestionStatus e questionId Answered w3)
                   in (Inr answer, w4)))"

text \<open>Lines 83-144: the checks, the question embedding, ranking, context and prompt.\<close>

definition rank_and_generate ::
  "env \<Rightarrow> string \<Rightarrow> question \<Rightarrow> (chapter_row \<times> real list) list \<Rightarrow> world
     \<Rightarrow> (pipeline_error + string) \<times> world" where
  "rank_and_generate e questionId q cwe w =
     (if cwe = [] then (Inl (NoChaptersWithinLimit (chapter_limit q)), w)
      else case question_text q of
             None \<Rightarrow> (Inl QuestionTextEmpty, w)
           | Some txt \<Rightarrow>
               if txt = [] then (Inl QuestionTextEmpty, w)
               else (let w1 = record_call (EmbedQuestion txt) w
                     in case getEmbedding e txt of
                          None \<Rightarrow> (Inl EmbeddingFailed, w1)
                        | Some questionEmbedding \<Rightarrow>
                            (let relevant = relevantChapters
                                              (chaptersWithScores questionEmbedding cwe)
                             in if relevant = [] then (Inl NoRelevantChapters, w1)
                                else generate_and_save e questionId
                                       (prompt (contextText relevant) txt (chapter_limit q))
                                       w1)))"

text \<open>Lines 30-81: the embeddings query and the boundary filter.\<close>

definition fetch_and_rank ::
  "env \<Rightarrow> string \<Rightarrow> question \<Rightarrow> world \<Rightarrow> (pipeline_error + string) \<times> world" where
  "fetch_and_rank e questionId q w =
     (let w1 = record_call (ReadEmbeddings (question.title_id q)) w
      in case chapter_embeddings e (question.title_id q) of
           Throws \<Rightarrow> (Inl StoreException, w1)
         | Returns embeddingsData embeddingsError \<Rightarrow>
             (case embeddingsData of
                None \<Rightarrow> (Inl (EmbeddingsFetchFailed embeddingsError), w1)
              | Some rows \<Rightarrow>
                  if embeddingsError \<noteq> None \<or> rows = []
                  then (Inl (EmbeddingsFetchFailed embeddingsError), w1)
                  else (case chaptersWithEmbeddings (json_parse e) (chapter_limit q) rows of
                          Inl err \<Rightarrow> (Inl err, w1)
                        | Inr cwe \<Rightarrow> rank_and_generate e questionId q cwe w1)))"

text \<open>The body of the \<open>try\<close> block, from the load of the question.\<close>

definition try_block ::
  "env \<Rightarrow> string \<Rightarrow> world \<Rightarrow> (pipeline_error + string) \<times> world" where
  "try_block e questionId w =
     (let questionResponse = fst (call_getQuestionById e questionId w);
          w1 = snd (call_getQuestionById e questionId w)
      in if \<not> success questionResponse then (Inl (QuestionNotFound (error questionResponse)), w1)
         else case data questionResponse of
                None \<Rightarrow> (Inl (QuestionNotFound (error questionResponse)), w1)
              | Some q \<Rightarrow> fetch_and_rank e questionId q w1)"

text \<open>
  \<open>catch (error) { await updateQuestionStatus(questionId, "failed"); throw error }\<close>:
  the result of the write is not read.
\<close>

definition generateAnswer ::
  "env \<Rightarrow> string \<Rightarrow> world \<Rightarrow> (pipeline_error + string) \<times> world" where
  "generateAnswer e questionId w =
     (case try_block e questionId w of
        (Inr answer, w1) \<Rightarrow> (Inr answer, w1)
      | (Inl err, w1) \<Rightarrow> (Inl err, snd (call_updateQuestionStatus e questionId Failed w1)))"

section \<open>Properties stated of the store adapter\<close>

text \<open>
  The error channel of an operation: a failed query (an error in the response, or an
  exception) gives a result with \<open>success = false\<close>, an error message and no data; any
  other query gives \<open>success = true\<close> and no error.
\<close>

definition error_channel :: "'a pg_outcome \<Rightarrow> 'b ApiResponse \<Rightarrow> bool" where
  "error_channel outcome r =
     (if store_failed outcome then \<not> success r \<and> error r \<noteq> None \<and> data r = None
      else success r \<and> error r = None)"

text \<open>
  A successful result of a single-row operation carries the \<open>data\<close> field of the
  response as it is: the row, or null when the response has neither a row nor an error.
\<close>

definition forwards_data :: "'a pg_outcome \<Rightarrow> 'a ApiResponse \<Rightarrow> bool" where
  "forwards_data outcome r =
     (success r \<longrightarrow> (\<exists>d. outcome = Returns d None \<and> data r = d))"

text \<open>
  A successful result of a list operation carries the rows the store returned, the
  empty list where the store returned none.
\<close>

definition carries_rows :: "'a list pg_outcome \<Rightarrow> 'a list ApiResponse \<Rightarrow> bool" where
  "carries_rows outcome r =
     (success r \<longrightarrow>
        (\<exists>rows. data r = Some rows \<and>
           (outcome = Returns (Some rows) None \<or> outcome = Returns None None \<and> rows = [])))"

section \<open>Properties stated of ranking and context assembly\<close>

text \<open>
  A similarity that is a finite number, its value, the number a chapter is ordered by,
  and the name and content a chapter is shown with.
\<close>

definition finite_number :: "jsnum \<Rightarrow> bool" where
  "finite_number v = (case v of Fin x \<Rightarrow> True | _ \<Rightarrow> False)"

definition score :: "scored_chapter \<Rightarrow> real" where
  "score c = (case similarity c of Fin x \<Rightarrow> x | _ \<Rightarrow> 0)"

definition order_key :: "'a chapter_row_scheme \<Rightarrow> int" where
  "order_key c = (case order c of None \<Rightarrow> 0 | Some n \<Rightarrow> n)"

definition shown_name :: "scored_chapter \<Rightarrow> string" where
  "shown_name c = (case name c of
       None \<Rightarrow> ''Chapter '' @ order_text (order c)
     | Some n \<Rightarrow> if n = [] then ''Chapter '' @ order_text (order c) else n)"

text \<open>A scored chapter for the examples.\<close>

definition scored :: "int \<Rightarrow> string \<Rightarrow> string \<Rightarrow> real \<Rightarrow> scored_chapter" where
  "scored n title txt s =
     \<lparr>id_ch = ''c'' @ string_of_int n, name = Some title, order = Some n, content = Some txt,
      title_id = ''t1'', similarity = Fin s\<rparr>"

definition shown_content :: "scored_chapter \<Rightarrow> string" where
  "shown_content c = (case content c of None \<Rightarrow> [] | Some txt \<Rightarrow> txt)"

section \<open>Properties stated of the boundary filter\<close>

text \<open>
  The chapters the embeddings query returned, in its order, and the rows whose embedding
  can be read.
\<close>

definition joined_chapters :: "embedding_row list \<Rightarrow> chapter_row list" where
  "joined_chapters rows = List.map_filter (\<lambda>r. joined_chapter (chapters r)) rows"

definition parses :: "(string \<Rightarrow> real list option) \<Rightarrow> embedding_row \<Rightarrow> bool" where
  "parses parse r = (parsedEmbedding parse (embedding r) \<noteq> None)"

text \<open>A chapter and a row of the query for the examples.\<close>

definition chapter_of :: "int \<Rightarrow> string \<Rightarrow> string \<Rightarrow> chapter_row" where
  "chapter_of n title txt =
     \<lparr>id_ch = ''c'' @ string_of_int n, name = Some title, order = Some n, content = Some txt,
      title_id = ''t1''\<rparr>"

definition row_of :: "int \<Rightarrow> string \<Rightarrow> string \<Rightarrow> real list \<Rightarrow> embedding_row" where
  "row_of n title txt v = \<lparr>embedding = Native v, chapters = Object (chapter_of n title txt)\<rparr>"

section \<open>Properties stated of an invocation\<close>

text \<open>The external calls one invocation makes, in order.\<close>

definition new_calls :: "env \<Rightarrow> string \<Rightarrow> world \<Rightarrow> call list" where
  "new_calls e questionId w = drop (length (calls w)) (calls (snd (generateAnswer e questionId w)))"


text \<open>
  A question as \<open>createQuestion\<close> stores it (status \<open>pending\<close>, no answer), an
  environment whose embeddings query returns chapter 4 and chapter 1 (in that order), and
  a store holding the question, for the examples.
\<close>

definition example_question :: question where
  "example_question =
     \<lparr>id_q = ''q1'', user_id = ''u1'', title_id = ''t1'', chapter_limit = Some 3,
      question_text = Some ''Who is it?'', answer_text = None, status = Some ''pending'',
      created_at = ''2024-01-01'', updated_at = ''2024-01-01''\<rparr>"

definition example_env :: "(store_call \<Rightarrow> fault) \<Rightarrow> completion \<Rightarrow> env" where
  "example_env faults answer =
     \<lparr>fault_of = faults, now = ''2024-01-02'',
      chapter_embeddings =
        (\<lambda>t. Returns (Some [row_of 4 ''Four'' ''murderer'' [0, 1], row_of 1 ''One'' ''a'' [1, 0]])
                None),
      json_parse = (\<lambda>s. None), getEmbedding = (\<lambda>t. Some [1, 0]),
      chat_completion = (\<lambda>p. answer)\<rparr>"

definition example_world :: "int option \<Rightarrow> world" where
  "example_world limit =
     \<lparr>questions = [''q1'' \<mapsto> example_question\<lparr>chapter_limit := limit\<rparr>], calls = []\<rparr>"

section \<open>Verified properties\<close>

subsection \<open>The question store adapter\<close>

lemmas questionsService_defs = createQuestion_def getUserQuestions_def getQuestionById_def
  updateQuestionAnswer_def updateQuestionStatus_def deleteQuestion_def
  getQuestionsByStatus_def getRecentQuestions_def getQuestionsByTitle_def

text \<open>
  C10, as the code has it. Every operation of \<open>questionsService\<close> returns an
  \<open>ApiResponse\<close> whatever the store does and never throws: an error of the store or an
  exception becomes a result with \<open>success = false\<close>, an error message and no data. A
  result with \<open>success = true\<close> of a list operation carries the rows the store returned,
  or the empty list; that of a single-row operation carries the \<open>data\<close> field of the
  response unchanged, which is null when the response has neither data nor error;
  \<open>deleteQuestion\<close> carries none.
\<close>

theorem questionsService_never_throws:
  fixes one :: "'a pg_outcome" and many :: "'a list pg_outcome"
  shows "error_channel one (createQuestion one) \<and> forwards_data one (createQuestion one)
       \<and> error_channel one (getQuestionById one) \<and> forwards_data one (getQuestionById one)
       \<and> error_channel one (updateQuestionAnswer one)
       \<and> forwards_data one (updateQuestionAnswer one)
       \<and> error_channel one (updateQuestionStatus one)
       \<and> forwards_data one (updateQuestionStatus one)
       \<and> error_channel one (deleteQuestion one)
       \<and> data (deleteQuestion one) = None
       \<and> error_channel many (getUserQuestions many)
       \<and> carries_rows many (getUserQuestions many)
       \<and> error_channel many (getQuestionsByStatus many)
       \<and> carries_rows many (getQuestionsByStatus many)
       \<and> error_channel many (getRecentQuestions many)
       \<and> carries_rows many (getRecentQuestions many)
       \<and> error_channel many (getQuestionsByTitle many)
       \<and> carries_rows many (getQuestionsByTitle many)"
  by (auto simp: questionsService_defs error_channel_def forwards_data_def carries_rows_def
        failure_def store_failed_def
        split: pg_outcome.splits option.splits)

theorem questionsService_never_throws_witness:
  "data (getQuestionById (Returns (Some (7::nat)) None)) = Some 7
   \<and> \<not> success (updateQuestionStatus (Throws :: nat pg_outcome))
   \<and> error (updateQuestionAnswer (Returns None (Some ''boom'') :: nat pg_outcome))
       = Some ''boom''
   \<and> data (getUserQuestions (Returns None None :: nat list pg_outcome)) = Some []"
  using questionsService_never_throws [of "Returns (Some (7::nat)) None" "Returns None None"]
        questionsService_never_throws [of "Throws :: nat pg_outcome" "Returns None None"]
        questionsService_never_throws
          [of "Returns None (Some ''boom'') :: nat pg_outcome" "Returns None None"]
  by (simp add: error_channel_def forwards_data_def carries_rows_def store_failed_def
        updateQuestionAnswer_def failure_def)

text \<open>
  When the store answers an insert or a single-row query with neither data nor error,
  the result has \<open>success = true\<close> and no data.
\<close>

theorem success_without_data_counterexample:
  "success (createQuestion (Returns None None :: nat pg_outcome))
   \<and> data (createQuestion (Returns None None :: nat pg_outcome)) = None
   \<and> success (getQuestionById (Returns None None :: nat pg_outcome))
   \<and> data (getQuestionById (Returns None None :: nat pg_outcome)) = None"
  by (simp add: createQuestion_def getQuestionById_def)

subsection \<open>Cosine similarity\<close>

lemma round64_zero: "round64 0 = Fin 0"
  by (simp add: round64_def)

lemma round_half_even_near:
  assumes "\<bar>y - of_int n\<bar> < 1 / 2"
  shows "round_half_even y = n"
proof (cases "of_int n \<le> y")
  case True
  with assms have "\<lfloor>y\<rfloor> = n" by (intro floor_unique) (auto simp: abs_less_iff)
  with True assms show ?thesis by (simp add: round_half_even_def Let_def abs_less_iff)
next
  case False
  with assms have "\<lfloor>y\<rfloor> = n - 1" by (intro floor_unique) (auto simp: abs_less_iff)
  with False assms show ?thesis by (simp add: round_half_even_def Let_def abs_less_iff)
qed

lemma round64_eval:
  assumes lo: "2 powi e \<le> x" and hi: "x < 2 powi (e + 1)"
    and range: "- 1022 \<le> e" "e < 1023"
    and near: "\<bar>x / 2 powi (e - 52) - of_int n\<bar> < 1 / 2"
  shows "round64 x = Fin (of_int n * 2 powi (e - 52))"
proof -
  have "(0::real) < 2 powi e" by simp
  with lo have pos: "0 < x" by linarith
  have "(2::real) powr real_of_int e = 2 powi e"
    and "(2::real) powr real_of_int (e + 1) = 2 powi (e + 1)"
    by (rule powr_real_of_int'; simp)+
  then have "\<lfloor>log 2 x\<rfloor> = e"
    using lo hi pos floor_log_eq_powr_iff [of x 2 e] by simp
  then have e: "max \<lfloor>log 2 \<bar>x\<bar>\<rfloor> (- 1022) = e" using pos range by simp
  have r: "round_half_even (\<bar>x\<bar> / 2 powi (e - 52)) = n"
    using pos near by (simp add: round_half_even_near)
  have q: "(0::real) < 2 powi (e - 52)" by simp
  have "x / 2 powi (e - 52) < 2 powi (e + 1) / 2 powi (e - 52)"
    using hi q by (simp add: divide_strict_right_mono)
  also have "2 powi (e + 1) / 2 powi (e - 52) = (2::real) powi 53"
    by (simp add: power_int_diff [symmetric])
  finally have "x / 2 powi (e - 52) < (2::real) powi 53" .
  with near have "of_int n < (2::real) powi 53 + 1 / 2" by linarith
  then have "real_of_int n < real_of_int (2 ^ 53 + 1)" by simp
  then have "n < 2 ^ 53 + 1" by (simp only: of_int_less_iff)
  then have "n \<le> 2 ^ 53" by simp
  then have "real_of_int n \<le> real_of_int (2 ^ 53)" by (simp only: of_int_le_iff)
  then have "of_int n \<le> (2::real) powi 53" by simp
  then have m: "of_int n * 2 powi (e - 52) \<le> (2::real) powi 53 * 2 powi (e - 52)"
    using q by (simp add: mult_right_mono)
  have "(2::real) powi (e + 1) = 2 powi (53 + (e - 52))"
    by (rule arg_cong [where f = "\<lambda>k. 2 powi k"]) arith
  also have "\<dots> = 2 powi 53 * 2 powi (e - 52)"
    by (rule power_int_add) simp
  finally have eq: "(2::real) powi 53 * 2 powi (e - 52) = 2 powi (e + 1)" by (rule sym)
  have lt: "(2::real) powi (e + 1) < 2 powi 1024"
    by (rule power_int_strict_increasing) (use range in simp_all)
  from m have "of_int n * 2 powi (e - 52) < (2::real) powi 1024"
    unfolding eq using lt by (rule le_less_trans)
  then have small: "\<not> 2 powi 1024 \<le> of_int n * (2::real) powi (e - 52)"
    by (simp only: not_le)
  show ?thesis
    using pos e r small by (simp add: round64_def Let_def)
qed

lemma round64_1: "round64 1 = Fin 1"
  using round64_eval [of 0 1 "2 ^ 52"] by simp














lemma cosine_unit:
  "cosineSimilarity [1, 0] [1, 0] = Fin 1" "cosineSimilarity [1, 0] [0, 1] = Fin 0"
  by (simp_all add: cosineSimilarity_def js_index_def round64_zero round64_1)













subsection \<open>Ranking and context assembly\<close>

lemma mset_insert_sorted: "mset (insert_sorted cmp x ys) = add_mset x (mset ys)"
  by (induction ys) simp_all

lemma mset_js_sort: "mset (js_sort cmp xs) = mset xs"
  by (induction xs) (simp_all add: js_sort_def mset_insert_sorted)

lemma length_js_sort: "length (js_sort cmp xs) = length xs"
  using mset_js_sort [of cmp xs] by (metis size_mset)

lemma set_js_sort: "set (js_sort cmp xs) = set xs"
  using mset_js_sort [of cmp xs] by (metis set_mset_mset)

lemma insert_sorted_insort_key:
  fixes k :: "'a \<Rightarrow> 'k::linorder"
  assumes "\<And>y. y \<in> set ys \<Longrightarrow> js_positive (cmp x y) \<longleftrightarrow> k y < k x"
  shows "insert_sorted cmp x ys = insort_key k x ys"
  using assms by (induction ys) (auto simp: not_less)

lemma js_sort_sort_key:
  fixes k :: "'a \<Rightarrow> 'k::linorder"
  assumes "\<And>x y. x \<in> set xs \<Longrightarrow> y \<in> set xs \<Longrightarrow> js_positive (cmp x y) \<longleftrightarrow> k y < k x"
  shows "js_sort cmp xs = sort_key k xs"
  using assms
proof (induction xs)
  case Nil
  show ?case by (simp add: js_sort_def)
next
  case (Cons x xs)
  have IH: "js_sort cmp xs = sort_key k xs"
    by (rule Cons.IH) (simp_all add: Cons.prems)
  have "insert_sorted cmp x (sort_key k xs) = insort_key k x (sort_key k xs)"
    by (rule insert_sorted_insort_key) (simp add: Cons.prems)
  with IH show ?case by (simp add: js_sort_def)
qed

lemma by_order_sort_key: "by_order sel = sort_key order_key sel"
  unfolding by_order_def
  by (rule js_sort_sort_key)
     (auto simp: to_number_def order_key_def split: option.splits)

lemma by_similarity_sort_key:
  assumes "list_all (\<lambda>c. finite_number (similarity c)) xs"
  shows "js_sort (\<lambda>a b. js_sub (similarity b) (similarity a)) xs = sort_key (\<lambda>c. - score c) xs"
proof (rule js_sort_sort_key)
  fix x y assume "x \<in> set xs" "y \<in> set xs"
  with assms have "finite_number (similarity x)" "finite_number (similarity y)"
    by (simp_all add: list_all_iff)
  then obtain u v where "similarity x = Fin u" "similarity y = Fin v"
    by (cases "similarity x"; cases "similarity y") (simp_all add: finite_number_def)
  then show "js_positive (js_sub (similarity y) (similarity x)) \<longleftrightarrow> - score y < - score x"
    by (auto simp: score_def)
qed

lemma filter_take_prefix: "prefix (filter P (take n ys)) (filter P ys)"
proof -
  have "filter P ys = filter P (take n ys) @ filter P (drop n ys)"
    by (metis append_take_drop_id filter_append)
  then show ?thesis by (simp add: prefix_def)
qed

text \<open>
  C7, as the code has it. The selection has \<open>min 5 n\<close> elements taken from the \<open>n\<close>
  candidates (so at most \<open>K = 5\<close> and at most \<open>n\<close>). When every similarity is a finite
  number, the selection is in descending (non-increasing) order of similarity, and
  candidates of equal similarity keep the order they had in the input: ties are not
  broken by chapter order.
\<close>

theorem relevantChapters_selection:
  "length (relevantChapters xs) = min 5 (length xs)
   \<and> mset (relevantChapters xs) \<subseteq># mset xs
   \<and> (list_all (\<lambda>c. finite_number (similarity c)) xs \<longrightarrow>
        sorted_wrt (\<lambda>a b. score b \<le> score a) (relevantChapters xs)
        \<and> (\<forall>v. prefix (filter (\<lambda>c. score c = v) (relevantChapters xs))
                       (filter (\<lambda>c. score c = v) xs)))"
proof (intro conjI impI allI)
  show "length (relevantChapters xs) = min 5 (length xs)"
    by (simp add: relevantChapters_def length_js_sort min.commute)
  have "mset (take 5 (js_sort (\<lambda>a b. js_sub (similarity b) (similarity a)) xs))
        \<subseteq># mset (js_sort (\<lambda>a b. js_sub (similarity b) (similarity a)) xs)"
    by (metis append_take_drop_id mset_subset_eq_add_left mset_append)
  then show "mset (relevantChapters xs) \<subseteq># mset xs"
    by (simp add: relevantChapters_def mset_js_sort)
next
  assume fin: "list_all (\<lambda>c. finite_number (similarity c)) xs"
  have eq: "relevantChapters xs = take 5 (sort_key (\<lambda>c. - score c) xs)"
    by (simp add: relevantChapters_def by_similarity_sort_key [OF fin])
  have "sorted (map (\<lambda>c. - score c) (sort_key (\<lambda>c. - score c) xs))"
    by (rule sorted_sort_key)
  then have "sorted_wrt (\<lambda>a b. score b \<le> score a) (sort_key (\<lambda>c. - score c) xs)"
    by (simp add: sorted_map)
  then show "sorted_wrt (\<lambda>a b. score b \<le> score a) (relevantChapters xs)"
    unfolding eq by (rule sorted_wrt_take)
  fix v
  have "filter (\<lambda>c. score c = v) (sort_key (\<lambda>c. - score c) xs)
        = filter (\<lambda>c. - score c = - v) (sort_key (\<lambda>c. - score c) xs)"
    by simp
  also have "\<dots> = filter (\<lambda>c. - score c = - v) xs"
    by (rule sort_key_stable)
  finally have st: "filter (\<lambda>c. score c = v) (sort_key (\<lambda>c. - score c) xs)
                    = filter (\<lambda>c. score c = v) xs"
    by simp
  show "prefix (filter (\<lambda>c. score c = v) (relevantChapters xs)) (filter (\<lambda>c. score c = v) xs)"
    unfolding eq using filter_take_prefix [of "\<lambda>c. score c = v" 5 "sort_key (\<lambda>c. - score c) xs"]
    by (simp only: st)
qed


lemma decimal_digit: "n < 10 \<Longrightarrow> decimal n = [digit_char n]"
  by (simp add: decimal.simps)

theorem relevantChapters_selection_witness:
  "list_all (\<lambda>c. finite_number (similarity c))
     [scored 1 ''One'' ''a'' (1/4), scored 2 ''Two'' ''b'' (3/4)]
   \<and> map order (relevantChapters [scored 1 ''One'' ''a'' (1/4), scored 2 ''Two'' ''b'' (3/4)])
       = [Some 2, Some 1]
   \<and> sorted_wrt (\<lambda>a b. score b \<le> score a)
        (relevantChapters [scored 1 ''One'' ''a'' (1/4), scored 2 ''Two'' ''b'' (3/4)])"
  using relevantChapters_selection [of "[scored 1 ''One'' ''a'' (1/4), scored 2 ''Two'' ''b'' (3/4)]"]
  by (simp add: finite_number_def scored_def relevantChapters_def js_sort_def)

text \<open>
  Two candidates of equal similarity given as chapter 2, chapter 1 come out in that
  order: neither strictly descending nor ascending in chapter order.
\<close>

theorem relevantChapters_tie_counterexample:
  "map order (relevantChapters [scored 2 ''Two'' ''b'' (1/2), scored 1 ''One'' ''a'' (1/2)])
     = [Some 2, Some 1]
   \<and> map similarity (relevantChapters [scored 2 ''Two'' ''b'' (1/2), scored 1 ''One'' ''a'' (1/2)])
     = [Fin (1/2), Fin (1/2)]"
  by (simp add: scored_def relevantChapters_def js_sort_def)

lemma chapter_block_layout:
  "chapter_block c = ''Chapter '' @ order_text (order c) @ '': '' @ shown_name c
                     @ ''\<newline>'' @ shown_content c"
  by (simp add: chapter_block_def shown_name_def shown_content_def Let_def)

lemma sort_key_unique:
  fixes k :: "'a \<Rightarrow> 'k::linorder"
  assumes "mset xs = mset ys" and "distinct (map k ys)"
  shows "sort_key k xs = sort_key k ys"
proof -
  have m: "mset (map k (sort_key k xs)) = mset (map k (sort_key k ys))"
    using assms(1) by simp
  have dy: "distinct (map k (sort_key k ys))"
    using assms(2) by (metis distinct_map distinct_sort set_sort)
  have dx: "distinct (map k (sort_key k xs))"
    using m dy by (metis mset_eq_imp_distinct_iff)
  have "set (map k (sort_key k xs)) = set (map k (sort_key k ys))"
    using m by (metis set_mset_mset)
  then have keys: "map k (sort_key k xs) = map k (sort_key k ys)"
    using dx dy by (intro sorted_distinct_set_unique) simp_all
  have "inj_on k (set ys)" using assms(2) by (simp add: distinct_map)
  moreover have "set xs = set ys" using assms(1) by (metis set_mset_mset)
  ultimately have "inj_on k (set (sort_key k xs) \<union> set (sort_key k ys))" by simp
  then show ?thesis using keys by (simp add: inj_on_map_eq_map)
qed

text \<open>
  C8, as the code has it. The context lists the selected chapters in ascending chapter
  order (a chapter without order counts as 0), whatever order the selection came in
  when the orders are distinct; each is rendered as \<open>Chapter <order>: <name>\<close>, a
  newline and the content, where a null or empty name is replaced by
  \<open>Chapter <order>\<close> and a null content by the empty text; consecutive chapters are
  separated by a blank line.
\<close>

theorem contextText_narrative_order:
  "contextText sel = join ''\<newline>\<newline>'' (map chapter_block (by_order sel))
   \<and> mset (by_order sel) = mset sel
   \<and> sorted (map order_key (by_order sel))
   \<and> (\<forall>c. chapter_block c = ''Chapter '' @ order_text (order c) @ '': '' @ shown_name c
                               @ ''\<newline>'' @ shown_content c)
   \<and> (\<forall>sel'. mset sel' = mset sel \<and> distinct (map order_key sel)
              \<longrightarrow> contextText sel' = contextText sel)"
proof (intro conjI allI impI)
  show "contextText sel = join ''\<newline>\<newline>'' (map chapter_block (by_order sel))"
    by (simp add: contextText_def)
  show "mset (by_order sel) = mset sel"
    by (simp add: by_order_sort_key)
  show "sorted (map order_key (by_order sel))"
    by (simp add: by_order_sort_key)
  show "chapter_block c = ''Chapter '' @ order_text (order c) @ '': '' @ shown_name c
                          @ ''\<newline>'' @ shown_content c" for c
    by (rule chapter_block_layout)
  show "contextText sel' = contextText sel"
    if "mset sel' = mset sel \<and> distinct (map order_key sel)" for sel'
    using that sort_key_unique [of sel' sel order_key]
    by (simp add: contextText_def by_order_sort_key)
qed

theorem contextText_narrative_order_witness:
  "mset [scored 1 ''One'' ''a'' (1/4), scored 2 ''Two'' ''b'' (3/4)]
     = mset [scored 2 ''Two'' ''b'' (3/4), scored 1 ''One'' ''a'' (1/4)]
   \<and> distinct (map order_key [scored 2 ''Two'' ''b'' (3/4), scored 1 ''One'' ''a'' (1/4)])
   \<and> contextText [scored 1 ''One'' ''a'' (1/4), scored 2 ''Two'' ''b'' (3/4)]
       = contextText [scored 2 ''Two'' ''b'' (3/4), scored 1 ''One'' ''a'' (1/4)]
   \<and> contextText [scored 2 ''Two'' ''b'' (3/4), scored 1 ''One'' ''a'' (1/4)]
       = ''Chapter 1: One\<newline>a\<newline>\<newline>Chapter 2: Two\<newline>b''"
  using contextText_narrative_order [of "[scored 2 ''Two'' ''b'' (3/4), scored 1 ''One'' ''a'' (1/4)]"]
  by (simp add: scored_def order_key_def by_order_def js_sort_def to_number_def
        order_text_def string_of_int_def decimal_digit digit_char_def shown_name_def
        shown_content_def)

text \<open>A chapter whose name is empty is not rendered with that name.\<close>

theorem contextText_empty_name_counterexample:
  "contextText [\<lparr>id_ch = ''c3'', name = Some [], order = Some 3, content = Some ''text'',
                  title_id = ''t1'', similarity = Fin 1\<rparr>]
     = ''Chapter 3: Chapter 3\<newline>text''
   \<and> contextText [\<lparr>id_ch = ''c3'', name = Some [], order = Some 3, content = Some ''text'',
                  title_id = ''t1'', similarity = Fin 1\<rparr>]
     \<noteq> ''Chapter 3: '' @ [] @ ''\<newline>text''"
  by (simp add: contextText_def by_order_def js_sort_def chapter_block_def order_text_def
        string_of_int_def decimal_digit digit_char_def)

subsection \<open>The boundary filter\<close>

lemma boundary_test:
  "js_le (to_number (order ch)) (limit_or_infinity limit)
   \<longleftrightarrow> (case limit of None \<Rightarrow> True | Some n \<Rightarrow> n = 0 \<or> order_key ch \<le> n)"
  by (simp add: to_number_def limit_or_infinity_def order_key_def split: option.splits)

lemma chaptersWithEmbeddings_fails:
  "\<not> list_all (parses parse) rows \<Longrightarrow> chaptersWithEmbeddings parse limit rows = Inl InvalidEmbeddingFormat"
  by (induction rows) (auto simp: parses_def split: option.splits sum.splits)

lemma chaptersWithEmbeddings_kept:
  "list_all (parses parse) rows \<Longrightarrow>
   \<exists>kept. chaptersWithEmbeddings parse limit rows = Inr kept
        \<and> map fst kept = filter (\<lambda>ch. js_le (to_number (order ch)) (limit_or_infinity limit))
                            (joined_chapters rows)"
  by (induction rows)
     (auto simp: parses_def joined_chapters_def List.map_filter_simps split: option.splits)

lemma chaptersWithEmbeddings_Inr:
  assumes "chaptersWithEmbeddings parse limit rows = Inr kept"
  shows "map fst kept = filter (\<lambda>ch. js_le (to_number (order ch)) (limit_or_infinity limit))
                            (joined_chapters rows)"
  using assms chaptersWithEmbeddings_kept [of parse rows limit]
        chaptersWithEmbeddings_fails [of parse rows limit]
  by (cases "list_all (parses parse) rows") auto

text \<open>
  C2, as the code has it. When every embedding can be read the boundary filter returns
  a list. When \<open>chapter_limit\<close> is null or zero it retains every chapter the query
  returned (the limit is replaced by \<open>Infinity\<close>); when it is negative it retains the
  chapters whose order is at most the limit, so none when no order is negative.
\<close>

theorem boundary_filter_without_limit:
  assumes "list_all (parses parse) rows"
  shows "\<exists>kept. chaptersWithEmbeddings parse limit rows = Inr kept
           \<and> (limit = None \<or> limit = Some 0 \<longrightarrow> map fst kept = joined_chapters rows)
           \<and> (\<forall>n. limit = Some n \<and> n < 0 \<longrightarrow>
                  map fst kept = filter (\<lambda>ch. order_key ch \<le> n) (joined_chapters rows)
                  \<and> (list_all (\<lambda>ch. 0 \<le> order_key ch) (joined_chapters rows) \<longrightarrow> kept = []))"
proof -
  from chaptersWithEmbeddings_kept [OF assms, of limit] obtain kept
    where k: "chaptersWithEmbeddings parse limit rows = Inr kept"
      and f: "map fst kept = filter (\<lambda>ch. js_le (to_number (order ch)) (limit_or_infinity limit))
                              (joined_chapters rows)"
    by blast
  have open_limit: "map fst kept = joined_chapters rows" if "limit = None \<or> limit = Some 0"
    using that f by (auto simp: boundary_test)
  have neg: "map fst kept = filter (\<lambda>ch. order_key ch \<le> n) (joined_chapters rows)"
    if "limit = Some n" "n < 0" for n
    using that f by (simp add: boundary_test)
  have none: "kept = []"
    if "limit = Some n" "n < 0" "list_all (\<lambda>ch. 0 \<le> order_key ch) (joined_chapters rows)" for n
  proof -
    have "filter (\<lambda>ch. order_key ch \<le> n) (joined_chapters rows) = []"
      using that by (auto simp: filter_empty_conv list_all_iff)
    with neg [OF that(1,2)] show ?thesis by simp
  qed
  from k open_limit neg none show ?thesis by blast
qed

theorem boundary_filter_without_limit_witness:
  "list_all (parses (\<lambda>s. None)) [row_of 1 ''One'' ''a'' [1, 0], row_of 2 ''Two'' ''b'' [0, 1]]
   \<and> (\<exists>kept. chaptersWithEmbeddings (\<lambda>s. None) None
                [row_of 1 ''One'' ''a'' [1, 0], row_of 2 ''Two'' ''b'' [0, 1]] = Inr kept
          \<and> map fst kept = [chapter_of 1 ''One'' ''a'', chapter_of 2 ''Two'' ''b''])
   \<and> (\<exists>kept. chaptersWithEmbeddings (\<lambda>s. None) (Some (- 1))
                [row_of 1 ''One'' ''a'' [1, 0], row_of 2 ''Two'' ''b'' [0, 1]] = Inr kept
          \<and> kept = [])"
  using boundary_filter_without_limit
          [of "\<lambda>s. None" "[row_of 1 ''One'' ''a'' [1, 0], row_of 2 ''Two'' ''b'' [0, 1]]" None]
        boundary_filter_without_limit
          [of "\<lambda>s. None" "[row_of 1 ''One'' ''a'' [1, 0], row_of 2 ''Two'' ''b'' [0, 1]]" "Some (- 1)"]
  by (simp add: parses_def parsedEmbedding_def row_of_def joined_chapters_def
        List.map_filter_simps joined_chapter_def order_key_def chapter_of_def)

text \<open>With a null limit, and with the limit 0, chapter 4 is retained.\<close>

theorem boundary_filter_null_limit_counterexample:
  "chaptersWithEmbeddings (\<lambda>s. None) None [row_of 4 ''Four'' ''murderer'' [1, 0]]
     = Inr [(chapter_of 4 ''Four'' ''murderer'', [1, 0])]
   \<and> chaptersWithEmbeddings (\<lambda>s. None) (Some 0) [row_of 4 ''Four'' ''murderer'' [1, 0]]
     = Inr [(chapter_of 4 ''Four'' ''murderer'', [1, 0])]"
  by (simp add: parsedEmbedding_def row_of_def joined_chapter_def chapter_of_def
        to_number_def limit_or_infinity_def)

subsection \<open>Invocations of generateAnswer\<close>

lemma calls_record_call: "calls (record_call c w) = calls w @ [c]"
  by (simp add: record_call_def)

lemma questions_record_call: "questions (record_call c w) = questions w"
  by (simp add: record_call_def)

lemma calls_update_single: "calls (snd (update_single e c qid f w)) = calls w"
  by (simp add: update_single_def split: fault.splits option.splits)

lemma questions_update_single:
  "questions (snd (update_single e c qid f w)) =
     (if fault_of e c = Healthy
      then (case questions w qid of None \<Rightarrow> questions w | Some q \<Rightarrow> (questions w)(qid \<mapsto> f q))
      else questions w)"
  by (simp add: update_single_def split: fault.splits option.splits)

lemma calls_updateQuestionStatus:
  "calls (snd (call_updateQuestionStatus e qid st w)) = calls w @ [WriteStatus qid st]"
  by (simp add: call_updateQuestionStatus_def Let_def calls_update_single calls_record_call)

lemma questions_updateQuestionStatus:
  "questions (snd (call_updateQuestionStatus e qid st w)) =
     (if fault_of e (SetStatus st) = Healthy
      then (case questions w qid of
              None \<Rightarrow> questions w
            | Some q \<Rightarrow> (questions w)(qid \<mapsto> q\<lparr>status := Some (status_text st),
                                                  updated_at := now e\<rparr>))
      else questions w)"
  by (simp add: call_updateQuestionStatus_def Let_def questions_update_single
        questions_record_call split: option.splits)

lemma questions_updateQuestionStatus_cong:
  assumes "questions w = questions w'"
  shows "questions (snd (call_updateQuestionStatus e qid st w))
           = questions (snd (call_updateQuestionStatus e qid st w'))"
  unfolding questions_updateQuestionStatus assms by (rule refl)

lemma calls_updateQuestionAnswer:
  "calls (snd (call_updateQuestionAnswer e qid a w)) = calls w @ [WriteAnswer qid a]"
  by (simp add: call_updateQuestionAnswer_def Let_def calls_update_single calls_record_call)

lemma questions_updateQuestionAnswer:
  "questions (snd (call_updateQuestionAnswer e qid a w)) =
     (if fault_of e SetAnswer = Healthy
      then (case questions w qid of
              None \<Rightarrow> questions w
            | Some q \<Rightarrow> (questions w)(qid \<mapsto> q\<lparr>answer_text := Some a,
                                                  status := Some ''answered'',
                                                  updated_at := now e\<rparr>))
      else questions w)"
  by (simp add: call_updateQuestionAnswer_def Let_def questions_update_single
        questions_record_call split: option.splits)

text \<open>What the provider's answer makes of the last stage.\<close>

lemma generate_and_save_result:
  "fst (generate_and_save e qid p w) =
     (case chat_completion e p of
        ProviderThrows msg \<Rightarrow> Inl (ProviderException msg)
      | Content None \<Rightarrow> Inl NoAnswerGenerated
      | Content (Some a) \<Rightarrow> if a = [] then Inl NoAnswerGenerated else Inr a)"
  by (simp add: generate_and_save_def Let_def split: completion.splits option.splits)

lemma generate_and_save_calls:
  "calls (snd (generate_and_save e qid p w)) =
     calls w @ [WriteStatus qid Pending, Generate p]
     @ (case fst (generate_and_save e qid p w) of
          Inl err \<Rightarrow> []
        | Inr a \<Rightarrow> [WriteAnswer qid a, WriteStatus qid Answered])"
  by (simp add: generate_and_save_def Let_def calls_updateQuestionStatus
        calls_updateQuestionAnswer calls_record_call
        split: completion.splits option.splits)

lemma generate_and_save_failed_questions:
  "fst (generate_and_save e qid p w) = Inl err \<Longrightarrow>
   questions (snd (generate_and_save e qid p w))
     = questions (snd (call_updateQuestionStatus e qid Pending w))"
  by (simp add: generate_and_save_def Let_def questions_record_call
        split: completion.splits option.splits if_splits)

lemma rank_and_generate_cases:
  obtains (early) err where "rank_and_generate e qid q cwe w = (Inl err, w)"
  | (embedded) err qtext where
      "rank_and_generate e qid q cwe w = (Inl err, record_call (EmbedQuestion qtext) w)"
  | (generate) qtext qe where "question_text q = Some qtext" "getEmbedding e qtext = Some qe"
      "cwe \<noteq> []"
      "rank_and_generate e qid q cwe w =
         generate_and_save e qid
           (prompt (contextText (relevantChapters (chaptersWithScores qe cwe))) qtext
              (chapter_limit q))
           (record_call (EmbedQuestion qtext) w)"
      "qtext \<noteq> []"
proof (cases "cwe = [] \<or> question_text q = None \<or> question_text q = Some []")
  case True
  then have "rank_and_generate e qid q cwe w
             = (Inl (if cwe = [] then NoChaptersWithinLimit (chapter_limit q)
                     else QuestionTextEmpty), w)"
    by (auto simp: rank_and_generate_def)
  then show ?thesis by (rule early)
next
  case False
  then obtain qtext where t: "cwe \<noteq> []" "question_text q = Some qtext" "qtext \<noteq> []"
    by (cases "question_text q") auto
  show ?thesis
  proof (cases "getEmbedding e qtext")
    case None
    with t have "rank_and_generate e qid q cwe w
                 = (Inl EmbeddingFailed, record_call (EmbedQuestion qtext) w)"
      by (simp add: rank_and_generate_def)
    then show ?thesis by (rule embedded)
  next
    case (Some qe)
    show ?thesis
    proof (cases "relevantChapters (chaptersWithScores qe cwe) = []")
      case True
      with t Some have "rank_and_generate e qid q cwe w
                 = (Inl NoRelevantChapters, record_call (EmbedQuestion qtext) w)"
        by (simp add: rank_and_generate_def)
      then show ?thesis by (rule embedded)
    next
      case False
      with t Some have "rank_and_generate e qid q cwe w =
         generate_and_save e qid
           (prompt (contextText (relevantChapters (chaptersWithScores qe cwe))) qtext
              (chapter_limit q))
           (record_call (EmbedQuestion qtext) w)"
        by (simp add: rank_and_generate_def)
      with t Some show ?thesis by (intro generate [of qtext qe]) simp_all
    qed
  qed
qed

lemma fetch_and_rank_cases:
  obtains (early) err where
      "fetch_and_rank e qid q w = (Inl err, record_call (ReadEmbeddings (question.title_id q)) w)"
  | (embedded) err qtext where
      "fetch_and_rank e qid q w =
         (Inl err, record_call (EmbedQuestion qtext)
                     (record_call (ReadEmbeddings (question.title_id q)) w))"
  | (generate) rows cwe qtext qe where
      "chapter_embeddings e (question.title_id q) = Returns (Some rows) None"
      "chaptersWithEmbeddings (json_parse e) (chapter_limit q) rows = Inr cwe"
      "cwe \<noteq> []" "question_text q = Some qtext" "getEmbedding e qtext = Some qe"
      "fetch_and_rank e qid q w =
         generate_and_save e qid
           (prompt (contextText (relevantChapters (chaptersWithScores qe cwe))) qtext
              (chapter_limit q))
           (record_call (EmbedQuestion qtext)
              (record_call (ReadEmbeddings (question.title_id q)) w))"
      "rows \<noteq> []" "qtext \<noteq> []"
proof (cases "\<exists>rows cwe. chapter_embeddings e (question.title_id q) = Returns (Some rows) None
                \<and> rows \<noteq> []
                \<and> chaptersWithEmbeddings (json_parse e) (chapter_limit q) rows = Inr cwe")
  case False
  have "\<exists>err. fetch_and_rank e qid q w
              = (Inl err, record_call (ReadEmbeddings (question.title_id q)) w)"
  proof (cases "chapter_embeddings e (question.title_id q)")
    case Throws
    then show ?thesis by (simp add: fetch_and_rank_def)
  next
    case (Returns embeddingsData embeddingsError)
    show ?thesis
    proof (cases embeddingsData)
      case None
      with Returns show ?thesis by (simp add: fetch_and_rank_def)
    next
      case (Some rows)
      show ?thesis
      proof (cases "embeddingsError \<noteq> None \<or> rows = []")
        case True
        with Returns Some show ?thesis by (auto simp: fetch_and_rank_def)
      next
        case ok: False
        with False Returns Some
        obtain err where "chaptersWithEmbeddings (json_parse e) (chapter_limit q) rows = Inl err"
          by (cases "chaptersWithEmbeddings (json_parse e) (chapter_limit q) rows") auto
        with ok Returns Some show ?thesis by (simp add: fetch_and_rank_def)
      qed
    qed
  qed
  then show ?thesis using early by blast
next
  case True
  then obtain rows cwe where r:
      "chapter_embeddings e (question.title_id q) = Returns (Some rows) None" "rows \<noteq> []"
      "chaptersWithEmbeddings (json_parse e) (chapter_limit q) rows = Inr cwe"
    by blast
  then have f: "fetch_and_rank e qid q w
      = rank_and_generate e qid q cwe (record_call (ReadEmbeddings (question.title_id q)) w)"
    by (simp add: fetch_and_rank_def Let_def)
  note E = early and M = embedded and G = generate
  show ?thesis
  proof (cases rule: rank_and_generate_cases
           [of e qid q cwe "record_call (ReadEmbeddings (question.title_id q)) w"])
    case (early err)
    with f show ?thesis by (intro E [of err]) simp
  next
    case (embedded err qtext)
    with f show ?thesis by (intro M [of err qtext]) simp
  next
    case (generate qtext qe)
    with f r show ?thesis
      by (intro G [of rows cwe qtext qe]) simp_all
  qed
qed


lemma try_block_cases:
  obtains (not_found) msg where
      "fault_of e GetById \<noteq> Healthy \<or> questions w qid = None"
      "try_block e qid w = (Inl (QuestionNotFound (Some msg)), record_call (GetQuestion qid) w)"
  | (early) q err where "questions w qid = Some q"
      "try_block e qid w =
         (Inl err, record_call (ReadEmbeddings (question.title_id q))
                     (record_call (GetQuestion qid) w))"
  | (embedded) q err qtext where "questions w qid = Some q"
      "try_block e qid w =
         (Inl err, record_call (EmbedQuestion qtext)
                     (record_call (ReadEmbeddings (question.title_id q))
                        (record_call (GetQuestion qid) w)))"
  | (generate) q rows cwe qtext qe where "questions w qid = Some q"
      "chapter_embeddings e (question.title_id q) = Returns (Some rows) None"
      "chaptersWithEmbeddings (json_parse e) (chapter_limit q) rows = Inr cwe"
      "cwe \<noteq> []" "question_text q = Some qtext" "getEmbedding e qtext = Some qe"
      "try_block e qid w =
         generate_and_save e qid
           (prompt (contextText (relevantChapters (chaptersWithScores qe cwe))) qtext
              (chapter_limit q))
           (record_call (EmbedQuestion qtext)
              (record_call (ReadEmbeddings (question.title_id q))
                 (record_call (GetQuestion qid) w)))"
      "fault_of e GetById = Healthy" "rows \<noteq> []" "qtext \<noteq> []"
proof (cases "fault_of e GetById = Healthy \<and> questions w qid \<noteq> None")
  case False
  then have "\<exists>msg. try_block e qid w
               = (Inl (QuestionNotFound (Some msg)), record_call (GetQuestion qid) w)"
    by (cases "fault_of e GetById"; cases "questions w qid")
       (simp_all add: try_block_def call_getQuestionById_def getQuestionById_def
          select_single_def failure_def)
  with False show ?thesis using not_found by blast
next
  case True
  then obtain q where q: "fault_of e GetById = Healthy" "questions w qid = Some q" by auto
  then have t: "try_block e qid w = fetch_and_rank e qid q (record_call (GetQuestion qid) w)"
    by (simp add: try_block_def call_getQuestionById_def getQuestionById_def select_single_def)
  note E = early and M = embedded and G = generate
  show ?thesis
  proof (cases rule: fetch_and_rank_cases [of e qid q "record_call (GetQuestion qid) w"])
    case (early err)
    with t q show ?thesis by (intro E [of q err]) simp_all
  next
    case (embedded err qtext)
    with t q show ?thesis by (intro M [of q err qtext]) simp_all
  next
    case (generate rows cwe qtext qe)
    with t q show ?thesis by (intro G [of q rows cwe qtext qe]) simp_all
  qed
qed

lemma new_calls_eq:
  "calls (snd (generateAnswer e qid w)) = calls w @ xs \<Longrightarrow> new_calls e qid w = xs"
  by (simp add: new_calls_def)

lemma generateAnswer_failed:
  assumes "try_block e qid w = (Inl err, w1)"
  shows "generateAnswer e qid w = (Inl err, snd (call_updateQuestionStatus e qid Failed w1))"
  using assms by (simp add: generateAnswer_def)

lemma early_run:
  assumes "try_block e qid w = (Inl err, w1)" and "calls w1 = calls w @ pre"
  shows "fst (generateAnswer e qid w) = Inl err"
    and "new_calls e qid w = pre @ [WriteStatus qid Failed]"
  using assms
  by (simp_all add: generateAnswer_failed new_calls_def calls_updateQuestionStatus)

text \<open>The runs of one invocation.\<close>

lemma generateAnswer_runs:
  obtains (early) err pre where
      "fst (generateAnswer e qid w) = Inl err"
      "new_calls e qid w = pre @ [WriteStatus qid Failed]"
      "pre = [GetQuestion qid] \<or> (\<exists>t. pre = [GetQuestion qid, ReadEmbeddings t])
         \<or> (\<exists>t x. pre = [GetQuestion qid, ReadEmbeddings t, EmbedQuestion x])"
  | (generate) q rows cwe qtext qe p w1 where "questions w qid = Some q"
      "chapter_embeddings e (question.title_id q) = Returns (Some rows) None"
      "chaptersWithEmbeddings (json_parse e) (chapter_limit q) rows = Inr cwe"
      "cwe \<noteq> []" "question_text q = Some qtext" "getEmbedding e qtext = Some qe"
      "p = prompt (contextText (relevantChapters (chaptersWithScores qe cwe))) qtext
             (chapter_limit q)"
      "calls w1 = calls w @ [GetQuestion qid, ReadEmbeddings (question.title_id q),
                             EmbedQuestion qtext]"
      "questions w1 = questions w"
      "try_block e qid w = generate_and_save e qid p w1"
      "fault_of e GetById = Healthy" "rows \<noteq> []" "qtext \<noteq> []"
proof -
  note E = early and G = generate
  show ?thesis
  proof (cases rule: try_block_cases [of e w qid])
    case (not_found msg)
    show ?thesis
      by (rule E [of "QuestionNotFound (Some msg)" "[GetQuestion qid]"])
         (simp_all add: early_run [OF not_found(2)] calls_record_call)
  next
    case (early q err)
    show ?thesis
      by (rule E [of err "[GetQuestion qid, ReadEmbeddings (question.title_id q)]"])
         (simp_all add: early_run [OF early(2)] calls_record_call)
  next
    case (embedded q err qtext)
    show ?thesis
      by (rule E [of err "[GetQuestion qid, ReadEmbeddings (question.title_id q),
                           EmbedQuestion qtext]"])
         (simp_all add: early_run [OF embedded(2)] calls_record_call)
  next
    case (generate q rows cwe qtext qe)
    then show ?thesis
      by (intro G [of q rows cwe qtext qe _
                    "record_call (EmbedQuestion qtext)
                       (record_call (ReadEmbeddings (question.title_id q))
                          (record_call (GetQuestion qid) w))"])
         (simp_all add: calls_record_call questions_record_call)
  qed
qed

text \<open>A run that reaches the generation call.\<close>

lemma generated_run:
  assumes "try_block e qid w = generate_and_save e qid p w1"
    and "calls w1 = calls w @ pre"
  shows "fst (generateAnswer e qid w) = fst (generate_and_save e qid p w1)"
    and "new_calls e qid w = pre @ [WriteStatus qid Pending, Generate p]
           @ (case fst (generate_and_save e qid p w1) of
                Inl err \<Rightarrow> [WriteStatus qid Failed]
              | Inr a \<Rightarrow> [WriteAnswer qid a, WriteStatus qid Answered])"
    and "questions (snd (generateAnswer e qid w)) =
           (case fst (generate_and_save e qid p w1) of
              Inl err \<Rightarrow> questions (snd (call_updateQuestionStatus e qid Failed
                                           (snd (call_updateQuestionStatus e qid Pending w1))))
            | Inr a \<Rightarrow> questions (snd (generate_and_save e qid p w1)))"
proof -
  obtain r w2 where g: "generate_and_save e qid p w1 = (r, w2)"
    by (cases "generate_and_save e qid p w1")
  have c: "calls w2 = calls w1 @ [WriteStatus qid Pending, Generate p]
             @ (case r of Inl err \<Rightarrow> [] | Inr a \<Rightarrow> [WriteAnswer qid a, WriteStatus qid Answered])"
    using generate_and_save_calls [of e qid p w1] g by simp
  show "fst (generateAnswer e qid w) = fst (generate_and_save e qid p w1)"
    using assms(1) g by (cases r) (simp_all add: generateAnswer_def)
  show "new_calls e qid w = pre @ [WriteStatus qid Pending, Generate p]
           @ (case fst (generate_and_save e qid p w1) of
                Inl err \<Rightarrow> [WriteStatus qid Failed]
              | Inr a \<Rightarrow> [WriteAnswer qid a, WriteStatus qid Answered])"
    using assms g c
    by (cases r) (simp_all add: generateAnswer_def new_calls_def calls_updateQuestionStatus)
  show "questions (snd (generateAnswer e qid w)) =
           (case fst (generate_and_save e qid p w1) of
              Inl err \<Rightarrow> questions (snd (call_updateQuestionStatus e qid Failed
                                           (snd (call_updateQuestionStatus e qid Pending w1))))
            | Inr a \<Rightarrow> questions (snd (generate_and_save e qid p w1)))"
  proof (cases r)
    case (Inl err)
    have "questions w2 = questions (snd (call_updateQuestionStatus e qid Pending w1))"
      using generate_and_save_failed_questions [of e qid p w1 err] g Inl by simp
    then have "questions (snd (call_updateQuestionStatus e qid Failed w2))
               = questions (snd (call_updateQuestionStatus e qid Failed
                                   (snd (call_updateQuestionStatus e qid Pending w1))))"
      by (rule questions_updateQuestionStatus_cong)
    then show ?thesis
      using assms(1) g Inl by (simp add: generateAnswer_def)
  next
    case (Inr a)
    then show ?thesis using assms(1) g by (simp add: generateAnswer_def)
  qed
qed


lemmas example_defs = example_env_def example_world_def example_question_def row_of_def
  chapter_of_def

lemmas run_defs = generateAnswer_def try_block_def fetch_and_rank_def rank_and_generate_def
  generate_and_save_def call_getQuestionById_def call_updateQuestionStatus_def
  call_updateQuestionAnswer_def getQuestionById_def updateQuestionStatus_def
  updateQuestionAnswer_def select_single_def update_single_def record_call_def
  parsedEmbedding_def joined_chapter_def to_number_def limit_or_infinity_def
  chaptersWithScores_def relevantChapters_def js_sort_def new_calls_def
  failure_def

lemma status_write_keeps_answer:
  "map_option answer_text (questions (snd (call_updateQuestionStatus e qid st w)) i)
   = map_option answer_text (questions w i)"
  by (simp add: questions_updateQuestionStatus split: option.splits)

lemma status_write_present:
  "questions w qid = Some q \<Longrightarrow>
   \<exists>q'. questions (snd (call_updateQuestionStatus e qid st w)) qid = Some q'"
  by (simp add: questions_updateQuestionStatus)

lemma status_write_done:
  "questions w qid = Some q \<Longrightarrow> fault_of e (SetStatus st) = Healthy \<Longrightarrow>
   \<exists>q'. questions (snd (call_updateQuestionStatus e qid st w)) qid = Some q'
        \<and> status q' = Some (status_text st)"
  by (simp add: questions_updateQuestionStatus)

lemma status_write_refused:
  "fault_of e (SetStatus st) \<noteq> Healthy \<Longrightarrow>
   questions (snd (call_updateQuestionStatus e qid st w)) = questions w"
  by (simp add: questions_updateQuestionStatus)






text \<open>
  C4, as the code has it. When no question has the given id, \<open>generateAnswer\<close> fails
  with the not-found error; the only write it attempts is the one of status \<open>failed\<close>
  made by the \<open>catch\<close> block (none of \<open>pending\<close>, \<open>answered\<close> or the answer), and that
  write matches no row: the table is unchanged.
\<close>

theorem not_found_writes_failed:
  assumes "questions w qid = None"
  shows "\<exists>msg. fst (generateAnswer e qid w) = Inl (QuestionNotFound (Some msg))
           \<and> new_calls e qid w = [GetQuestion qid, WriteStatus qid Failed]
           \<and> questions (snd (generateAnswer e qid w)) = questions w"
proof (cases rule: try_block_cases [of e w qid])
  case (not_found msg)
  have "questions (snd (generateAnswer e qid w)) = questions w"
    using assms
    by (simp add: generateAnswer_failed [OF not_found(2)] questions_updateQuestionStatus
          questions_record_call)
  then show ?thesis
    using early_run [OF not_found(2), of "[GetQuestion qid]"]
    by (simp add: calls_record_call)
qed (simp_all add: assms)

theorem not_found_writes_failed_witness:
  "questions (example_world (Some 3)) ''q9'' = None
   \<and> (\<exists>msg. fst (generateAnswer (example_env (\<lambda>c. Healthy) (Content None)) ''q9''
                   (example_world (Some 3)))
             = Inl (QuestionNotFound (Some msg)))"
proof -
  have "questions (example_world (Some 3)) ''q9'' = None"
    by (simp add: example_world_def)
  with not_found_writes_failed
         [of "example_world (Some 3)" "''q9''" "example_env (\<lambda>c. Healthy) (Content None)"]
  show ?thesis by blast
qed

text \<open>
  For an unknown id the write of \<open>failed\<close> is attempted.
\<close>

theorem not_found_failed_write_counterexample:
  "new_calls (example_env (\<lambda>c. Healthy) (Content None)) ''q9'' (example_world (Some 3))
   = [GetQuestion ''q9'', WriteStatus ''q9'' Failed]"
  by (simp add: run_defs example_defs)


text \<open>What is known of an invocation that made the generation call.\<close>

lemma reached_generation:
  assumes "Generate p \<in> set (new_calls e qid w)"
  obtains q rows cwe qtext qe where "questions w qid = Some q"
      "chapter_embeddings e (question.title_id q) = Returns (Some rows) None"
      "chaptersWithEmbeddings (json_parse e) (chapter_limit q) rows = Inr cwe"
      "question_text q = Some qtext" "getEmbedding e qtext = Some qe"
      "p = prompt (contextText (relevantChapters (chaptersWithScores qe cwe))) qtext
             (chapter_limit q)"
      "fst (generateAnswer e qid w) =
         (case chat_completion e p of
            ProviderThrows msg \<Rightarrow> Inl (ProviderException msg)
          | Content None \<Rightarrow> Inl NoAnswerGenerated
          | Content (Some a) \<Rightarrow> if a = [] then Inl NoAnswerGenerated else Inr a)"
      "new_calls e qid w =
         [GetQuestion qid, ReadEmbeddings (question.title_id q), EmbedQuestion qtext,
          WriteStatus qid Pending, Generate p]
         @ (case fst (generateAnswer e qid w) of
              Inl err \<Rightarrow> [WriteStatus qid Failed]
            | Inr a \<Rightarrow> [WriteAnswer qid a, WriteStatus qid Answered])"
      "\<And>err. fst (generateAnswer e qid w) = Inl err \<Longrightarrow>
         questions (snd (generateAnswer e qid w))
         = questions (snd (call_updateQuestionStatus e qid Failed
                             (snd (call_updateQuestionStatus e qid Pending w))))"
proof (cases rule: generateAnswer_runs [of e qid w])
  case (early err pre)
  with assms show ?thesis by auto
next
  case (generate q rows cwe qtext qe p' w1)
  note run = generated_run [OF generate(10) generate(8)]
  have p: "p = p'" using assms run(2) by (auto split: sum.splits)
  have "questions (snd (call_updateQuestionStatus e qid Pending w1))
        = questions (snd (call_updateQuestionStatus e qid Pending w))"
    by (rule questions_updateQuestionStatus_cong) (rule generate(9))
  then have pend: "questions (snd (call_updateQuestionStatus e qid Failed
                                    (snd (call_updateQuestionStatus e qid Pending w1))))
        = questions (snd (call_updateQuestionStatus e qid Failed
                            (snd (call_updateQuestionStatus e qid Pending w))))"
    by (rule questions_updateQuestionStatus_cong)
  show ?thesis
  proof (rule that [of q rows cwe qtext qe])
    show "fst (generateAnswer e qid w) =
         (case chat_completion e p of
            ProviderThrows msg \<Rightarrow> Inl (ProviderException msg)
          | Content None \<Rightarrow> Inl NoAnswerGenerated
          | Content (Some a) \<Rightarrow> if a = [] then Inl NoAnswerGenerated else Inr a)"
      using run(1) by (simp add: generate_and_save_result p)
    show "new_calls e qid w =
         [GetQuestion qid, ReadEmbeddings (question.title_id q), EmbedQuestion qtext,
          WriteStatus qid Pending, Generate p]
         @ (case fst (generateAnswer e qid w) of
              Inl err \<Rightarrow> [WriteStatus qid Failed]
            | Inr a \<Rightarrow> [WriteAnswer qid a, WriteStatus qid Answered])"
      using run(1,2) by (simp add: p)
    show "questions (snd (generateAnswer e qid w))
         = questions (snd (call_updateQuestionStatus e qid Failed
                             (snd (call_updateQuestionStatus e qid Pending w))))"
      if "fst (generateAnswer e qid w) = Inl err" for err
      using that run(1,3) pend by simp
  qed (simp_all add: generate p)
qed

text \<open>The failed write that closes a run which raised after the generation call.\<close>

lemma failed_write_after_generation:
  assumes "questions w qid = Some q"
    and "questions w2 = questions (snd (call_updateQuestionStatus e qid Failed
                                          (snd (call_updateQuestionStatus e qid Pending w))))"
  shows "fault_of e (SetStatus Failed) = Healthy \<Longrightarrow>
           \<exists>q'. questions w2 qid = Some q' \<and> status q' = Some ''failed''"
    and "fault_of e (SetStatus Failed) \<noteq> Healthy \<Longrightarrow>
           questions w2 = questions (snd (call_updateQuestionStatus e qid Pending w))"
    and "map_option answer_text (questions w2 i) = map_option answer_text (questions w i)"
proof -
  obtain q1 where q1: "questions (snd (call_updateQuestionStatus e qid Pending w)) qid = Some q1"
    using status_write_present [OF assms(1)] by blast
  show "\<exists>q'. questions w2 qid = Some q' \<and> status q' = Some ''failed''"
    if "fault_of e (SetStatus Failed) = Healthy"
    using status_write_done [OF q1 that] assms(2) by simp
  show "questions w2 = questions (snd (call_updateQuestionStatus e qid Pending w))"
    if "fault_of e (SetStatus Failed) \<noteq> Healthy"
    using status_write_refused [OF that] assms(2) by simp
  show "map_option answer_text (questions w2 i) = map_option answer_text (questions w i)"
    unfolding assms(2) by (simp only: status_write_keeps_answer)
qed

text \<open>
  What holds of an invocation that reached the generation call: when the provider throws
  or returns no text the invocation fails with that error; whenever it fails, its last
  call is the write of status \<open>failed\<close>, which sets the status when the store accepts it
  and otherwise leaves the table as the \<open>pending\<close> write left it, the error returned
  being the original one either way.
\<close>

lemma raised_after_generation:
  assumes "Generate p \<in> set (new_calls e qid w)"
  shows "(\<forall>msg. chat_completion e p = ProviderThrows msg
            \<longrightarrow> fst (generateAnswer e qid w) = Inl (ProviderException msg))
       \<and> (chat_completion e p = Content None \<or> chat_completion e p = Content (Some [])
            \<longrightarrow> fst (generateAnswer e qid w) = Inl NoAnswerGenerated)
       \<and> (\<forall>a. chat_completion e p = Content (Some a) \<and> a \<noteq> []
            \<longrightarrow> fst (generateAnswer e qid w) = Inr a)
       \<and> (\<forall>err. fst (generateAnswer e qid w) = Inl err \<longrightarrow>
              last (new_calls e qid w) = WriteStatus qid Failed
            \<and> (fault_of e (SetStatus Failed) = Healthy \<longrightarrow>
                 (\<exists>q. questions (snd (generateAnswer e qid w)) qid = Some q
                     \<and> status q = Some ''failed''))
            \<and> (fault_of e (SetStatus Failed) \<noteq> Healthy \<longrightarrow>
                 questions (snd (generateAnswer e qid w))
                 = questions (snd (call_updateQuestionStatus e qid Pending w))))"
proof (rule reached_generation [OF assms])
  fix q rows cwe qtext qe
  assume q: "questions w qid = Some q"
    and res: "fst (generateAnswer e qid w) =
         (case chat_completion e p of
            ProviderThrows msg \<Rightarrow> Inl (ProviderException msg)
          | Content None \<Rightarrow> Inl NoAnswerGenerated
          | Content (Some a) \<Rightarrow> if a = [] then Inl NoAnswerGenerated else Inr a)"
    and new: "new_calls e qid w =
         [GetQuestion qid, ReadEmbeddings (question.title_id q), EmbedQuestion qtext,
          WriteStatus qid Pending, Generate p]
         @ (case fst (generateAnswer e qid w) of
              Inl err \<Rightarrow> [WriteStatus qid Failed]
            | Inr a \<Rightarrow> [WriteAnswer qid a, WriteStatus qid Answered])"
    and qs: "\<And>err. fst (generateAnswer e qid w) = Inl err \<Longrightarrow>
         questions (snd (generateAnswer e qid w))
         = questions (snd (call_updateQuestionStatus e qid Failed
                             (snd (call_updateQuestionStatus e qid Pending w))))"
  have fail: "last (new_calls e qid w) = WriteStatus qid Failed
            \<and> (fault_of e (SetStatus Failed) = Healthy \<longrightarrow>
                 (\<exists>q. questions (snd (generateAnswer e qid w)) qid = Some q
                     \<and> status q = Some ''failed''))
            \<and> (fault_of e (SetStatus Failed) \<noteq> Healthy \<longrightarrow>
                 questions (snd (generateAnswer e qid w))
                 = questions (snd (call_updateQuestionStatus e qid Pending w)))"
    if f: "fst (generateAnswer e qid w) = Inl err" for err
    using failed_write_after_generation(1,2) [OF q qs [OF f]] new f by simp
  from res fail show ?thesis by (auto split: completion.splits option.splits)
qed

text \<open>
  C5. Here the code departs from the claim. The store rejects the write of the answer,
  a step after the \<open>pending\<close> write: the invocation does not fail but returns the
  answer, no status \<open>failed\<close> is written, and the question is left with status
  \<open>answered\<close> and no \<open>answer_text\<close>. (\<open>generateAnswer\<close> reads \<open>success\<close> of the load at
  line 18 and does not read the result of \<open>updateQuestionAnswer\<close> at line 163.)
\<close>

theorem answer_write_failure_run:
  "fst (generateAnswer (example_env (\<lambda>c. if c = SetAnswer then Rejects ''down'' else Healthy)
                          (Content (Some ''Alice''))) ''q1'' (example_world (Some 3)))
     = Inr ''Alice''
   \<and> WriteStatus ''q1'' Failed
       \<notin> set (new_calls (example_env (\<lambda>c. if c = SetAnswer then Rejects ''down'' else Healthy)
                           (Content (Some ''Alice''))) ''q1'' (example_world (Some 3)))
   \<and> map_option answer_text
       (questions (snd (generateAnswer
                          (example_env (\<lambda>c. if c = SetAnswer then Rejects ''down'' else Healthy)
                             (Content (Some ''Alice''))) ''q1'' (example_world (Some 3))))
          ''q1'') = Some None
   \<and> map_option status
       (questions (snd (generateAnswer
                          (example_env (\<lambda>c. if c = SetAnswer then Rejects ''down'' else Healthy)
                             (Content (Some ''Alice''))) ''q1'' (example_world (Some 3))))
          ''q1'') = Some (Some ''answered'')"
  by (simp add: run_defs example_defs cosine_unit)

text \<open>
  C9, as the code has it. When the generation provider returns missing or empty text,
  the invocation fails with the error \<open>No answer generated by AI\<close>, no write of the
  answer is attempted and no \<open>answer_text\<close> in the table changes; the last call is the
  write of status \<open>failed\<close>. The status of the question becomes \<open>failed\<close> when the store
  accepts that write; when the store rejects it, the rejection is swallowed and the
  table stays as the \<open>pending\<close> write left it.
\<close>

theorem empty_response_frame:
  assumes "Generate p \<in> set (new_calls e qid w)"
    and "chat_completion e p = Content None \<or> chat_completion e p = Content (Some [])"
  shows "fst (generateAnswer e qid w) = Inl NoAnswerGenerated
       \<and> (\<forall>i a. WriteAnswer i a \<notin> set (new_calls e qid w))
       \<and> (\<forall>i. map_option answer_text (questions (snd (generateAnswer e qid w)) i)
                = map_option answer_text (questions w i))
       \<and> last (new_calls e qid w) = WriteStatus qid Failed
       \<and> (fault_of e (SetStatus Failed) = Healthy \<longrightarrow>
            (\<exists>q. questions (snd (generateAnswer e qid w)) qid = Some q
                \<and> status q = Some ''failed''))
       \<and> (fault_of e (SetStatus Failed) \<noteq> Healthy \<longrightarrow>
            questions (snd (generateAnswer e qid w))
            = questions (snd (call_updateQuestionStatus e qid Pending w)))"
proof (rule reached_generation [OF assms(1)])
  fix q rows cwe qtext qe
  assume q: "questions w qid = Some q"
    and res: "fst (generateAnswer e qid w) =
         (case chat_completion e p of
            ProviderThrows msg \<Rightarrow> Inl (ProviderException msg)
          | Content None \<Rightarrow> Inl NoAnswerGenerated
          | Content (Some a) \<Rightarrow> if a = [] then Inl NoAnswerGenerated else Inr a)"
    and new: "new_calls e qid w =
         [GetQuestion qid, ReadEmbeddings (question.title_id q), EmbedQuestion qtext,
          WriteStatus qid Pending, Generate p]
         @ (case fst (generateAnswer e qid w) of
              Inl err \<Rightarrow> [WriteStatus qid Failed]
            | Inr a \<Rightarrow> [WriteAnswer qid a, WriteStatus qid Answered])"
    and qs: "\<And>err. fst (generateAnswer e qid w) = Inl err \<Longrightarrow>
         questions (snd (generateAnswer e qid w))
         = questions (snd (call_updateQuestionStatus e qid Failed
                             (snd (call_updateQuestionStatus e qid Pending w))))"
  have f: "fst (generateAnswer e qid w) = Inl NoAnswerGenerated"
    using res assms(2) by auto
  note w = failed_write_after_generation [OF q qs [OF f]]
  have "\<forall>i a. WriteAnswer i a \<notin> set (new_calls e qid w)"
    and "last (new_calls e qid w) = WriteStatus qid Failed"
    using new f by simp_all
  with f w show ?thesis by blast
qed

theorem empty_response_frame_witness:
  "Generate (prompt ''Chapter 1: One\<newline>a'' ''Who is it?'' (Some 3))
     \<in> set (new_calls (example_env (\<lambda>c. Healthy) (Content (Some []))) ''q1''
              (example_world (Some 3)))
   \<and> fst (generateAnswer (example_env (\<lambda>c. Healthy) (Content (Some []))) ''q1''
            (example_world (Some 3))) = Inl NoAnswerGenerated
   \<and> (\<exists>q. questions (snd (generateAnswer (example_env (\<lambda>c. Healthy) (Content (Some [])))
                               ''q1'' (example_world (Some 3)))) ''q1'' = Some q
          \<and> status q = Some ''failed'')"
proof -
  have g: "Generate (prompt ''Chapter 1: One\<newline>a'' ''Who is it?'' (Some 3))
     \<in> set (new_calls (example_env (\<lambda>c. Healthy) (Content (Some []))) ''q1''
              (example_world (Some 3)))"
    by (simp add: run_defs example_defs cosine_unit contextText_def by_order_def
          chapter_block_def order_text_def string_of_int_def decimal_digit digit_char_def)
  have c: "chat_completion (example_env (\<lambda>c. Healthy) (Content (Some [])))
             (prompt ''Chapter 1: One\<newline>a'' ''Who is it?'' (Some 3))
           = Content None
         \<or> chat_completion (example_env (\<lambda>c. Healthy) (Content (Some [])))
             (prompt ''Chapter 1: One\<newline>a'' ''Who is it?'' (Some 3))
           = Content (Some [])"
    and h: "fault_of (example_env (\<lambda>c. Healthy) (Content (Some []))) (SetStatus Failed)
            = Healthy"
    by (simp_all add: example_env_def)
  from empty_response_frame [OF g c] g h show ?thesis by simp
qed

text \<open>
  The provider returns empty text and the store rejects the write of \<open>failed\<close>: the
  invocation fails and the status of the question is \<open>pending\<close>, not \<open>failed\<close>.
\<close>

theorem failed_write_rejected_counterexample:
  "fst (generateAnswer
          (example_env (\<lambda>c. if c = SetStatus Failed then Rejects ''down'' else Healthy)
             (Content (Some []))) ''q1'' (example_world (Some 3)))
     = Inl NoAnswerGenerated
   \<and> map_option status
       (questions (snd (generateAnswer
                          (example_env (\<lambda>c. if c = SetStatus Failed then Rejects ''down''
                                             else Healthy)
                             (Content (Some []))) ''q1'' (example_world (Some 3))))
          ''q1'') = Some (Some ''pending'')"
  by (simp add: run_defs example_defs cosine_unit)


lemma set_by_order: "set (by_order sel) = set sel"
  by (simp add: by_order_def set_js_sort)

lemma set_relevantChapters: "set (relevantChapters xs) \<subseteq> set xs"
  unfolding relevantChapters_def
  using set_take_subset [of 5 "js_sort (\<lambda>a b. js_sub (similarity b) (similarity a)) xs"]
  by (simp add: set_js_sort)

lemma scored_from_kept:
  assumes "c \<in> set (chaptersWithScores qe cwe)"
  shows "\<exists>ch\<in>set (map fst cwe). id_ch c = id_ch ch \<and> name c = name ch \<and> order c = order ch
                                  \<and> content c = content ch"
proof -
  from assms obtain ch v where m: "(ch, v) \<in> set cwe"
    and c: "c = \<lparr>id_ch = id_ch ch, name = name ch, order = order ch, content = content ch,
                 title_id = chapter_row.title_id ch,
                 similarity = cosineSimilarity qe v\<rparr>"
    by (auto simp: chaptersWithScores_def)
  from m have "ch \<in> set (map fst cwe)" by force
  then show ?thesis using c by (intro bexI [of _ ch]) simp_all
qed

text \<open>
  C1, as the code has it. For a question whose \<open>chapter_limit\<close> is a number other than
  zero, the prompt of every generation call is built from a context that renders only
  chapters the embeddings query returned whose order is at most the limit (a chapter
  without order counts as 0).
\<close>

theorem context_within_limit:
  assumes "questions w qid = Some q" and "chapter_limit q = Some n" and "n \<noteq> 0"
    and "Generate p \<in> set (new_calls e qid w)"
  shows "\<exists>rows blocks qtext.
           chapter_embeddings e (question.title_id q) = Returns (Some rows) None
         \<and> p = prompt (join ''\<newline>\<newline>'' (map chapter_block blocks)) qtext (Some n)
         \<and> (\<forall>c\<in>set blocks. order_key c \<le> n
               \<and> (\<exists>ch\<in>set (joined_chapters rows).
                     id_ch c = id_ch ch \<and> name c = name ch \<and> order c = order ch
                     \<and> content c = content ch))"
proof (rule reached_generation [OF assms(4)])
  fix q' rows cwe qtext qe
  assume "questions w qid = Some q'"
  with assms(1) have [simp]: "q' = q" by simp
  assume rows: "chapter_embeddings e (question.title_id q') = Returns (Some rows) None"
    and kept: "chaptersWithEmbeddings (json_parse e) (chapter_limit q') rows = Inr cwe"
    and p: "p = prompt (contextText (relevantChapters (chaptersWithScores qe cwe))) qtext
                  (chapter_limit q')"
  let ?blocks = "by_order (relevantChapters (chaptersWithScores qe cwe))"
  have k: "map fst cwe = filter (\<lambda>ch. js_le (to_number (order ch)) (limit_or_infinity (Some n)))
                           (joined_chapters rows)"
    using chaptersWithEmbeddings_Inr [OF kept] assms(2) by simp
  have "order_key c \<le> n
        \<and> (\<exists>ch\<in>set (joined_chapters rows).
               id_ch c = id_ch ch \<and> name c = name ch \<and> order c = order ch
               \<and> content c = content ch)"
    if "c \<in> set ?blocks" for c
  proof -
    from that have "c \<in> set (chaptersWithScores qe cwe)"
      using set_relevantChapters [of "chaptersWithScores qe cwe"] by (auto simp: set_by_order)
    then obtain ch where ch: "ch \<in> set (map fst cwe)" "id_ch c = id_ch ch" "name c = name ch"
        "order c = order ch" "content c = content ch"
      using scored_from_kept by blast
    from ch(1) have "ch \<in> set (joined_chapters rows)" and "order_key ch \<le> n"
      unfolding k using assms(3) by (simp_all add: boundary_test)
    moreover have "order_key c = order_key ch" using ch(4) by (simp add: order_key_def)
    ultimately show ?thesis using ch by auto
  qed
  moreover have "p = prompt (join ''\<newline>\<newline>'' (map chapter_block ?blocks)) qtext (Some n)"
    using p assms(2) by (simp add: contextText_def)
  ultimately show ?thesis using rows by auto
qed

theorem context_within_limit_witness:
  "questions (example_world (Some 3)) ''q1'' = Some example_question
   \<and> chapter_limit example_question = Some 3
   \<and> Generate (prompt ''Chapter 1: One\<newline>a'' ''Who is it?'' (Some 3))
       \<in> set (new_calls (example_env (\<lambda>c. Healthy) (Content (Some ''Alice''))) ''q1''
                (example_world (Some 3)))
   \<and> (\<exists>rows blocks qtext.
         chapter_embeddings (example_env (\<lambda>c. Healthy) (Content (Some ''Alice'')))
           (question.title_id example_question) = Returns (Some rows) None
       \<and> prompt ''Chapter 1: One\<newline>a'' ''Who is it?'' (Some 3)
           = prompt (join ''\<newline>\<newline>'' (map chapter_block blocks)) qtext (Some 3)
       \<and> (\<forall>c\<in>set blocks. order_key c \<le> 3
             \<and> (\<exists>ch\<in>set (joined_chapters rows).
                   id_ch c = id_ch ch \<and> name c = name ch \<and> order c = order ch
                   \<and> content c = content ch)))"
proof -
  have q: "questions (example_world (Some 3)) ''q1'' = Some example_question"
    and l: "chapter_limit example_question = Some 3"
    by (simp_all add: example_world_def example_question_def)
  have g: "Generate (prompt ''Chapter 1: One\<newline>a'' ''Who is it?'' (Some 3))
       \<in> set (new_calls (example_env (\<lambda>c. Healthy) (Content (Some ''Alice''))) ''q1''
                (example_world (Some 3)))"
    by (simp add: run_defs example_defs cosine_unit contextText_def by_order_def
          chapter_block_def order_text_def string_of_int_def decimal_digit digit_char_def)
  from context_within_limit [OF q l _ g] q l g show ?thesis by simp
qed

text \<open>
  With \<open>chapter_limit = 0\<close> the context sent to the provider contains chapter 4.
\<close>

theorem context_beyond_zero_limit_counterexample:
  "Generate (prompt ''Chapter 1: One\<newline>a\<newline>\<newline>Chapter 4: Four\<newline>murderer''
               ''Who is it?'' (Some 0))
     \<in> set (new_calls (example_env (\<lambda>c. Healthy) (Content (Some ''Alice''))) ''q1''
              (example_world (Some 0)))"
  by (simp add: run_defs example_defs cosine_unit contextText_def by_order_def
        chapter_block_def order_text_def string_of_int_def decimal_digit digit_char_def)

end